theory Spec2Isabelle
  imports Complex_Main
begin

section \<open>JavaScript values used by the trading bot\<close>

text \<open>
  The development embeds \<^verbatim>\<open>src/v1/trade.js\<close> (class \<^verbatim>\<open>TradingBot\<close>): the command
  parser \<^verbatim>\<open>parseCommand\<close> and the order sequencing of \<^verbatim>\<open>placeMarketOrder\<close>,
  \<^verbatim>\<open>placeStopLossOrder\<close>, \<^verbatim>\<open>placeTakeProfitOrder\<close>, \<^verbatim>\<open>executeTrade\<close> and
  \<^verbatim>\<open>processCommand\<close>.

  A JavaScript string is modelled by a \<^typ>\<open>string\<close>, one \<^typ>\<open>char\<close> per code unit.
  The model covers ASCII text: \<open>is_space\<close> lists the ASCII members of the class
  \<^verbatim>\<open>\s\<close> and \<open>toUpperCase\<close> maps \<^verbatim>\<open>a-z\<close> to \<^verbatim>\<open>A-Z\<close>. Characters beyond ASCII, on
  which JavaScript knows more white space and more letters, are outside the model;
  a statement about every command is a statement about every ASCII command.

  A JavaScript number is a \<open>jsnum\<close>: \<open>NaN\<close>, the two infinities, or a finite value.
  \<open>Fin r\<close> carries the exact decimal value \<open>r\<close>; of the binary64 rounding only what
  the program can observe is modelled (\<open>number_of\<close>): a magnitude of at most
  \<open>2^-1075\<close> becomes zero and a magnitude of at least \<open>2^1024 - 2^970\<close> becomes an
  infinity. The program inspects numbers only through \<^verbatim>\<open>isNaN\<close>, comparisons with
  \<open>0\<close>, \<open>1\<close> and \<open>125\<close> and truthiness, none of which the rounding of an in-range
  value changes. \<^verbatim>\<open>-0\<close> and \<^verbatim>\<open>+0\<close> are both \<open>Fin 0\<close>.
\<close>

datatype jsnum = NaN | PosInf | NegInf | Fin rat

definition number_of :: "rat \<Rightarrow> jsnum" where
  "number_of r =
     (if \<bar>r\<bar> \<le> 1 / 2 ^ 1075 then Fin 0
      else if 2 ^ 1024 - 2 ^ 970 \<le> \<bar>r\<bar> then (if r < 0 then NegInf else PosInf)
      else Fin r)"

definition isNaN :: "jsnum \<Rightarrow> bool" where
  "isNaN x = (x = NaN)"

text \<open>\<^verbatim>\<open>x < y\<close> on numbers: false as soon as one side is \<^verbatim>\<open>NaN\<close>.\<close>

fun js_less :: "jsnum \<Rightarrow> jsnum \<Rightarrow> bool" where
  "js_less NaN y = False"
| "js_less x NaN = False"
| "js_less (Fin a) (Fin b) = (a < b)"
| "js_less x NegInf = False"
| "js_less NegInf y = True"
| "js_less PosInf y = False"
| "js_less x PosInf = True"

text \<open>\<^verbatim>\<open>x <= y\<close>, \<^verbatim>\<open>x > y\<close>.\<close>

definition js_le :: "jsnum \<Rightarrow> jsnum \<Rightarrow> bool" where
  "js_le x y = (js_less x y \<or> (x = y \<and> x \<noteq> NaN))"

definition js_greater :: "jsnum \<Rightarrow> jsnum \<Rightarrow> bool" where
  "js_greater x y = js_less y x"

text \<open>
  Truthiness of a field that holds \<^verbatim>\<open>null\<close> (\<open>None\<close>) or a number: \<^verbatim>\<open>null\<close>,
  \<^verbatim>\<open>NaN\<close> and zero are falsy, every other number is truthy.
\<close>

fun truthy :: "jsnum option \<Rightarrow> bool" where
  "truthy None = False"
| "truthy (Some NaN) = False"
| "truthy (Some (Fin r)) = (r \<noteq> 0)"
| "truthy (Some x) = True"

subsection \<open>Strings\<close>

definition is_space :: "char \<Rightarrow> bool" where
  "is_space c = (c \<in> set [CHR 0x09, CHR 0x0A, CHR 0x0B, CHR 0x0C, CHR 0x0D, CHR '' ''])"

text \<open>\<^verbatim>\<open>s.trim()\<close>\<close>

definition trim :: "string \<Rightarrow> string" where
  "trim s = rev (dropWhile is_space (rev (dropWhile is_space s)))"

text \<open>
  \<^verbatim>\<open>s.split(/\s+/)\<close>: the pieces between maximal runs of white space. The empty
  string gives one empty piece; leading or trailing white space gives an empty
  first or last piece.
\<close>

function split_ws :: "string \<Rightarrow> string list" where
  "split_ws s =
     (case dropWhile (\<lambda>c. \<not> is_space c) s of
        [] \<Rightarrow> [s]
      | c # rest \<Rightarrow> takeWhile (\<lambda>c. \<not> is_space c) s # split_ws (dropWhile is_space rest))"
  by pat_completeness auto
termination
proof (relation "measure length", goal_cases)
  case 1
  show ?case by simp
next
  case (2 s c rest)
  have "length (dropWhile is_space rest) \<le> length rest"
    by (rule length_dropWhile_le)
  moreover have "length (dropWhile (\<lambda>c. \<not> is_space c) s) \<le> length s"
    by (rule length_dropWhile_le)
  ultimately show ?case using 2 by simp
qed

declare split_ws.simps [simp del]

text \<open>\<^verbatim>\<open>s.split(sep)\<close> for a separator of one character.\<close>

fun split_on :: "char \<Rightarrow> string \<Rightarrow> string list" where
  "split_on sep [] = [[]]"
| "split_on sep (c # cs) =
     (if c = sep then [] # split_on sep cs
      else (case split_on sep cs of
              [] \<Rightarrow> [[c]]
            | t # ts \<Rightarrow> (c # t) # ts))"

text \<open>\<^verbatim>\<open>xs[i]\<close>: \<open>None\<close> stands for \<^verbatim>\<open>undefined\<close>.\<close>

definition at_index :: "'a list \<Rightarrow> nat \<Rightarrow> 'a option" where
  "at_index xs i = (if i < length xs then Some (xs ! i) else None)"

text \<open>\<^verbatim>\<open>s.startsWith(p)\<close>\<close>

definition startsWith :: "string \<Rightarrow> string \<Rightarrow> bool" where
  "startsWith s p = (take (length p) s = p)"

text \<open>\<^verbatim>\<open>s.replace('x', '')\<close>: the first \<^verbatim>\<open>x\<close> is deleted, if there is one.\<close>

fun replace_x :: "string \<Rightarrow> string" where
  "replace_x [] = []"
| "replace_x (c # cs) = (if c = CHR ''x'' then cs else c # replace_x cs)"

text \<open>\<^verbatim>\<open>s.toUpperCase()\<close> on ASCII.\<close>

definition upper_char :: "char \<Rightarrow> char" where
  "upper_char c =
     (case map_of (zip ''abcdefghijklmnopqrstuvwxyz'' ''ABCDEFGHIJKLMNOPQRSTUVWXYZ'') c of
        None \<Rightarrow> c
      | Some u \<Rightarrow> u)"

definition toUpperCase :: "string \<Rightarrow> string" where
  "toUpperCase s = map upper_char s"

subsection \<open>parseInt and parseFloat\<close>

text \<open>The value of a digit in radix 10 or 16; \<open>None\<close> for any other character.\<close>

definition digit_of :: "int \<Rightarrow> char \<Rightarrow> int option" where
  "digit_of radix c =
     (case map_of (zip ''0123456789abcdef'' [0, 1, 2, 3, 4, 5, 6, 7, 8, 9, 10, 11, 12, 13, 14, 15]
                   @ zip ''ABCDEF'' [10, 11, 12, 13, 14, 15]) c of
        None \<Rightarrow> None
      | Some d \<Rightarrow> if d < radix then Some d else None)"

definition is_digit :: "int \<Rightarrow> char \<Rightarrow> bool" where
  "is_digit radix c = (digit_of radix c \<noteq> None)"

definition digits_value :: "int \<Rightarrow> string \<Rightarrow> int" where
  "digits_value radix ds = foldl (\<lambda>acc c. acc * radix + the (digit_of radix c)) 0 ds"

text \<open>An optional sign: whether it is \<^verbatim>\<open>-\<close>, and the rest of the string.\<close>

fun strip_sign :: "string \<Rightarrow> bool \<times> string" where
  "strip_sign [] = (False, [])"
| "strip_sign (c # cs) =
     (if c = CHR ''-'' then (True, cs)
      else if c = CHR ''+'' then (False, cs)
      else (False, c # cs))"

text \<open>
  \<^verbatim>\<open>parseInt(s)\<close> with no radix: leading white space is skipped, a sign is read,
  a prefix \<^verbatim>\<open>0x\<close> or \<^verbatim>\<open>0X\<close> selects radix 16, and the longest run of digits is
  the value; what follows the digits is ignored. No digit at all gives \<^verbatim>\<open>NaN\<close>.
\<close>

definition parseInt :: "string \<Rightarrow> jsnum" where
  "parseInt input =
     (let (neg, s) = strip_sign (dropWhile is_space input);
          hex = (startsWith s ''0x'' \<or> startsWith s ''0X'');
          radix = (if hex then 16 else 10);
          z = takeWhile (is_digit radix) (if hex then drop 2 s else s)
      in if z = [] then NaN
         else number_of ((if neg then - 1 else 1) * of_int (digits_value radix z)))"

text \<open>
  The exponent part of a decimal literal: \<^verbatim>\<open>e\<close> or \<^verbatim>\<open>E\<close>, an optional sign and at
  least one digit. Anything else is no exponent (value 0).
\<close>

definition exponent_part :: "string \<Rightarrow> int" where
  "exponent_part s =
     (case s of
        [] \<Rightarrow> 0
      | c # cs \<Rightarrow>
          if c = CHR ''e'' \<or> c = CHR ''E'' then
            (let (neg, r) = strip_sign cs;
                 ds = takeWhile (is_digit 10) r
             in if ds = [] then 0
                else (if neg then - digits_value 10 ds else digits_value 10 ds))
          else 0)"

definition scale10 :: "rat \<Rightarrow> int \<Rightarrow> rat" where
  "scale10 m e = (if 0 \<le> e then m * 10 ^ nat e else m / 10 ^ nat (- e))"

text \<open>
  \<^verbatim>\<open>parseFloat(s)\<close>: leading white space is skipped and the longest prefix that is a
  decimal literal is the value: a sign, then \<^verbatim>\<open>Infinity\<close> or digits with an optional
  fraction and exponent; what follows is ignored. No such prefix gives \<^verbatim>\<open>NaN\<close>.
\<close>

definition parseFloat :: "string \<Rightarrow> jsnum" where
  "parseFloat input =
     (let (neg, s) = strip_sign (dropWhile is_space input)
      in if startsWith s ''Infinity'' then (if neg then NegInf else PosInf)
         else
           (let ip = takeWhile (is_digit 10) s;
                r1 = dropWhile (is_digit 10) s;
                has_dot = (r1 \<noteq> [] \<and> hd r1 = CHR ''.'');
                fp = (if has_dot then takeWhile (is_digit 10) (tl r1) else []);
                r2 = (if has_dot then dropWhile (is_digit 10) (tl r1) else r1)
            in if ip = [] \<and> fp = [] then NaN
               else
                 (let mv = scale10 (of_int (digits_value 10 (ip @ fp)))
                             (exponent_part r2 - int (length fp))
                  in number_of (if neg then - mv else mv))))"

section \<open>The command parser\<close>

text \<open>
  The object \<^verbatim>\<open>tradeParams\<close> that \<^verbatim>\<open>parseCommand\<close> builds. \<open>side\<close> and \<open>symbol\<close>
  are strings, \<open>stopLoss\<close> and \<open>takeProfit\<close> are \<^verbatim>\<open>null\<close> (\<open>None\<close>) or a number.
\<close>

record tradeParams =
  side :: string
  symbol :: string
  leverage :: jsnum
  quantity :: jsnum
  stopLoss :: "jsnum option"
  takeProfit :: "jsnum option"
  hold :: bool

text \<open>
  The four \<^verbatim>\<open>throw new Error(...)\<close> of \<^verbatim>\<open>parseCommand\<close>, in the order of the source.
  The source tells them apart by the message only (Russian text): "not enough
  parameters in the command", "wrong trade direction, use BUY or SELL", "wrong
  leverage value", "wrong quantity for the order".
\<close>

datatype parse_error =
  InsufficientParameters | InvalidDirection | InvalidLeverage | InvalidQuantity

text \<open>A line written with \<^verbatim>\<open>console.error\<close> by the \<^verbatim>\<open>catch\<close> of \<^verbatim>\<open>parseCommand\<close>:
  a fixed prefix and the message of the error caught.\<close>

datatype console_line = ConsoleError parse_error

text \<open>
  \<^verbatim>\<open>parseFloat(param.split('=')[1])\<close>: the text between the first and the second
  \<^verbatim>\<open>=\<close>. \<^verbatim>\<open>parseFloat(undefined)\<close> is \<^verbatim>\<open>NaN\<close>.
\<close>

definition param_value :: "string \<Rightarrow> jsnum" where
  "param_value param =
     (case at_index (split_on CHR ''='' param) 1 of
        None \<Rightarrow> NaN
      | Some v \<Rightarrow> parseFloat v)"

text \<open>The body of the loop over \<^verbatim>\<open>parts[4]\<close>, \<^verbatim>\<open>parts[5]\<close>, ...\<close>

definition apply_param :: "string \<Rightarrow> tradeParams \<Rightarrow> tradeParams" where
  "apply_param param tp =
     (if startsWith param ''SL='' then
        (let slValue = param_value param
         in if \<not> isNaN slValue then tp\<lparr>stopLoss := Some slValue\<rparr> else tp)
      else if startsWith param ''TP='' then
        (let tpValue = param_value param
         in if \<not> isNaN tpValue then tp\<lparr>takeProfit := Some tpValue\<rparr> else tp)
      else if toUpperCase param = ''HOLD'' then tp\<lparr>hold := True\<rparr>
      else tp)"

fun optional_params :: "string list \<Rightarrow> tradeParams \<Rightarrow> tradeParams" where
  "optional_params [] tp = tp"
| "optional_params (param # rest) tp = optional_params rest (apply_param param tp)"

text \<open>The \<^verbatim>\<open>try\<close> block of \<^verbatim>\<open>parseCommand\<close>: \<open>Inl\<close> is the error thrown.\<close>

definition parseCommand_try :: "string \<Rightarrow> parse_error + tradeParams" where
  "parseCommand_try command =
     (let parts = split_ws (trim command)
      in if length parts < 4 then Inl InsufficientParameters
         else
           (let direction = toUpperCase (parts ! 0);
                symbol = toUpperCase (parts ! 1);
                leverageStr = parts ! 2;
                quantity = parseFloat (parts ! 3)
            in if direction \<notin> set [''BUY'', ''SELL''] then Inl InvalidDirection
               else
                 (let leverage = parseInt (replace_x leverageStr)
                  in if isNaN leverage \<or> js_less leverage (Fin 1) \<or> js_greater leverage (Fin 125)
                     then Inl InvalidLeverage
                     else if isNaN quantity \<or> js_le quantity (Fin 0) then Inl InvalidQuantity
                     else Inr (optional_params (drop 4 parts)
                            \<lparr>side = (if direction = ''BUY'' then ''LONG'' else ''SHORT''),
                             symbol = symbol,
                             leverage = leverage,
                             quantity = quantity,
                             stopLoss = None,
                             takeProfit = None,
                             hold = False\<rparr>))))"

text \<open>
  \<^verbatim>\<open>parseCommand\<close>: the result (\<open>None\<close> is \<^verbatim>\<open>null\<close>) and the lines written to the
  console. The \<^verbatim>\<open>catch\<close> writes the message of the error and returns \<^verbatim>\<open>null\<close>.
\<close>

definition parseCommand :: "string \<Rightarrow> tradeParams option \<times> console_line list" where
  "parseCommand command =
     (case parseCommand_try command of
        Inl e \<Rightarrow> (None, [ConsoleError e])
      | Inr tp \<Rightarrow> (Some tp, []))"

section \<open>The exchange client and the order sequencing\<close>

text \<open>
  The object passed to \<^verbatim>\<open>client.futuresOrder\<close>. \<open>None\<close> is a key the object does
  not have. The source passes \<^verbatim>\<open>quantity.toString()\<close> and
  \<^verbatim>\<open>stopPrice.toString()\<close>; the model keeps the numbers that are rendered.
\<close>

record order_request =
  req_symbol :: string
  req_side :: string
  req_type :: string
  req_quantity :: jsnum
  req_stopPrice :: "jsnum option"
  req_timeInForce :: "string option"

text \<open>A call of the exchange client: \<^verbatim>\<open>futuresLeverage({symbol, leverage})\<close> or
  \<^verbatim>\<open>futuresOrder({...})\<close>.\<close>

datatype call = FuturesLeverage string jsnum | FuturesOrder order_request

text \<open>
  The client (\<^verbatim>\<open>binance-api-node\<close>) is outside the repository. It is a parameter of
  the model: each of its two operations answers a request, given the calls made
  before it, with an error \<open>Inl e\<close> (the promise rejects) or a value (it resolves).
  Errors \<open>'e\<close> and order responses \<open>'o\<close> are opaque; the program only passes them on.
\<close>

record ('e, 'o) client =
  futuresLeverage :: "call list \<Rightarrow> string \<Rightarrow> jsnum \<Rightarrow> 'e + unit"
  futuresOrder :: "call list \<Rightarrow> order_request \<Rightarrow> 'e + 'o"

text \<open>
  An \<^verbatim>\<open>async\<close> method takes the calls made so far and returns its outcome (\<open>Inl\<close>:
  it throws) with the calls extended by its own, oldest first. Each
  \<^verbatim>\<open>catch (error) { console.error(...); throw error; }\<close> of the trading methods
  rethrows what it caught, so it leaves the outcome as it is; the console lines of
  the trading methods carry nothing back into the program and are left out.
\<close>

type_synonym ('e, 'a) run = "call list \<Rightarrow> ('e + 'a) \<times> call list"

definition setLeverage :: "('e, 'o) client \<Rightarrow> string \<Rightarrow> jsnum \<Rightarrow> ('e, unit) run" where
  "setLeverage cl smb lev tr =
     (futuresLeverage cl tr smb lev, tr @ [FuturesLeverage smb lev])"

text \<open>\<^verbatim>\<open>const orderSide = side === 'LONG' ? 'BUY' : 'SELL'\<close> of \<^verbatim>\<open>placeMarketOrder\<close> and
  \<^verbatim>\<open>const closeSide = side === 'LONG' ? 'SELL' : 'BUY'\<close> of \<^verbatim>\<open>executeTrade\<close>.\<close>

definition orderSide :: "string \<Rightarrow> string" where
  "orderSide sd = (if sd = ''LONG'' then ''BUY'' else ''SELL'')"

definition closeSide :: "string \<Rightarrow> string" where
  "closeSide sd = (if sd = ''LONG'' then ''SELL'' else ''BUY'')"

definition marketOrderRequest :: "tradeParams \<Rightarrow> order_request" where
  "marketOrderRequest tp =
     \<lparr>req_symbol = symbol tp, req_side = orderSide (side tp), req_type = ''MARKET'',
      req_quantity = quantity tp, req_stopPrice = None, req_timeInForce = None\<rparr>"

definition placeMarketOrder :: "('e, 'o) client \<Rightarrow> tradeParams \<Rightarrow> ('e, 'o) run" where
  "placeMarketOrder cl tp tr =
     (case setLeverage cl (symbol tp) (leverage tp) tr of
        (Inl e, tr1) \<Rightarrow> (Inl e, tr1)
      | (Inr u, tr1) \<Rightarrow>
          (futuresOrder cl tr1 (marketOrderRequest tp),
           tr1 @ [FuturesOrder (marketOrderRequest tp)]))"

definition stopLossRequest :: "string \<Rightarrow> string \<Rightarrow> jsnum \<Rightarrow> jsnum \<Rightarrow> order_request" where
  "stopLossRequest smb sd qty stopPrice =
     \<lparr>req_symbol = smb, req_side = sd, req_type = ''STOP_MARKET'',
      req_quantity = qty, req_stopPrice = Some stopPrice, req_timeInForce = Some ''GTC''\<rparr>"

definition placeStopLossOrder ::
  "('e, 'o) client \<Rightarrow> string \<Rightarrow> string \<Rightarrow> jsnum \<Rightarrow> jsnum \<Rightarrow> ('e, 'o) run" where
  "placeStopLossOrder cl smb sd qty stopPrice tr =
     (futuresOrder cl tr (stopLossRequest smb sd qty stopPrice),
      tr @ [FuturesOrder (stopLossRequest smb sd qty stopPrice)])"

definition takeProfitRequest :: "string \<Rightarrow> string \<Rightarrow> jsnum \<Rightarrow> jsnum \<Rightarrow> order_request" where
  "takeProfitRequest smb sd qty takeProfitPrice =
     \<lparr>req_symbol = smb, req_side = sd, req_type = ''TAKE_PROFIT_MARKET'',
      req_quantity = qty, req_stopPrice = Some takeProfitPrice, req_timeInForce = Some ''GTC''\<rparr>"

definition placeTakeProfitOrder ::
  "('e, 'o) client \<Rightarrow> string \<Rightarrow> string \<Rightarrow> jsnum \<Rightarrow> jsnum \<Rightarrow> ('e, 'o) run" where
  "placeTakeProfitOrder cl smb sd qty takeProfitPrice tr =
     (futuresOrder cl tr (takeProfitRequest smb sd qty takeProfitPrice),
      tr @ [FuturesOrder (takeProfitRequest smb sd qty takeProfitPrice)])"

text \<open>\<^verbatim>\<open>if (b) { await m; }\<close>: the value of \<open>m\<close> is dropped, its error is not.\<close>

definition when_truthy :: "bool \<Rightarrow> ('e, 'a) run \<Rightarrow> ('e, unit) run" where
  "when_truthy b m tr =
     (if b then
        (case m tr of
           (Inl e, tr1) \<Rightarrow> (Inl e, tr1)
         | (Inr v, tr1) \<Rightarrow> (Inr (), tr1))
      else (Inr (), tr))"

text \<open>
  \<^verbatim>\<open>executeTrade\<close>: the main order, then, unless \<open>hold\<close>, the stop-loss order when
  \<open>stopLoss\<close> is truthy and the take-profit order when \<open>takeProfit\<close> is truthy.
  The value returned is \<^verbatim>\<open>mainOrder\<close>.
\<close>

definition executeTrade :: "('e, 'o) client \<Rightarrow> tradeParams \<Rightarrow> ('e, 'o) run" where
  "executeTrade cl tp tr =
     (case placeMarketOrder cl tp tr of
        (Inl e, tr1) \<Rightarrow> (Inl e, tr1)
      | (Inr mainOrder, tr1) \<Rightarrow>
          if \<not> hold tp then
            (case when_truthy (truthy (stopLoss tp))
                    (placeStopLossOrder cl (symbol tp) (closeSide (side tp)) (quantity tp)
                       (the (stopLoss tp))) tr1 of
               (Inl e, tr2) \<Rightarrow> (Inl e, tr2)
             | (Inr u, tr2) \<Rightarrow>
                 (case when_truthy (truthy (takeProfit tp))
                         (placeTakeProfitOrder cl (symbol tp) (closeSide (side tp)) (quantity tp)
                            (the (takeProfit tp))) tr2 of
                    (Inl e, tr3) \<Rightarrow> (Inl e, tr3)
                  | (Inr u, tr3) \<Rightarrow> (Inr mainOrder, tr3)))
          else (Inr mainOrder, tr1))"

text \<open>
  \<^verbatim>\<open>processCommand\<close>: \<^verbatim>\<open>false\<close> when the command does not parse or the trade
  throws, \<^verbatim>\<open>true\<close> otherwise; with the calls made and the console lines of the
  parser.
\<close>

definition processCommand ::
  "('e, 'o) client \<Rightarrow> string \<Rightarrow> call list \<Rightarrow> bool \<times> call list \<times> console_line list" where
  "processCommand cl command tr =
     (case parseCommand command of
        (None, con) \<Rightarrow> (False, tr, con)
      | (Some tp, con) \<Rightarrow>
          (case executeTrade cl tp tr of
             (Inl e, tr1) \<Rightarrow> (False, tr1, con)
           | (Inr v, tr1) \<Rightarrow> (True, tr1, con)))"

subsection \<open>Reading a list of calls\<close>

fun is_leverage_call :: "call \<Rightarrow> bool" where
  "is_leverage_call (FuturesLeverage smb lev) = True"
| "is_leverage_call (FuturesOrder r) = False"

fun is_order_call :: "call \<Rightarrow> bool" where
  "is_order_call (FuturesLeverage smb lev) = False"
| "is_order_call (FuturesOrder r) = True"

fun is_market_order :: "call \<Rightarrow> bool" where
  "is_market_order (FuturesLeverage smb lev) = False"
| "is_market_order (FuturesOrder r) = (req_type r = ''MARKET'')"

fun is_stop_loss_order :: "call \<Rightarrow> bool" where
  "is_stop_loss_order (FuturesLeverage smb lev) = False"
| "is_stop_loss_order (FuturesOrder r) = (req_type r = ''STOP_MARKET'')"

fun is_take_profit_order :: "call \<Rightarrow> bool" where
  "is_take_profit_order (FuturesLeverage smb lev) = False"
| "is_take_profit_order (FuturesOrder r) = (req_type r = ''TAKE_PROFIT_MARKET'')"

definition is_conditional_order :: "call \<Rightarrow> bool" where
  "is_conditional_order c = (is_stop_loss_order c \<or> is_take_profit_order c)"

text \<open>The calls a run made: what it added to the calls \<open>tr\<close> it started from.\<close>

definition calls_made :: "call list \<Rightarrow> ('r \<times> call list) \<Rightarrow> call list" where
  "calls_made tr outcome = drop (length tr) (snd outcome)"

subsection \<open>Clients and intents to run the model on\<close>

text \<open>
  Clients whose errors are messages and whose order responses are order ids: one
  that accepts every call, three that reject the leverage call, the market order,
  or the stop-loss order, and one that accepts every call and numbers the
  conditional orders differently. An accepted order gets the id \<open>1000 + n\<close> (or
  \<open>7000 + n\<close>) after \<open>n\<close> earlier calls.
\<close>

definition accepting_client :: "(string, nat) client" where
  "accepting_client =
     \<lparr>futuresLeverage = (\<lambda>tr smb lev. Inr ()),
      futuresOrder = (\<lambda>tr r. Inr (1000 + length tr))\<rparr>"

definition leverage_rejecting_client :: "(string, nat) client" where
  "leverage_rejecting_client =
     \<lparr>futuresLeverage = (\<lambda>tr smb lev. Inl ''leverage rejected''),
      futuresOrder = (\<lambda>tr r. Inr (1000 + length tr))\<rparr>"

definition entry_rejecting_client :: "(string, nat) client" where
  "entry_rejecting_client =
     \<lparr>futuresLeverage = (\<lambda>tr smb lev. Inr ()),
      futuresOrder = (\<lambda>tr r. if req_type r = ''MARKET'' then Inl ''insufficient margin''
                               else Inr (1000 + length tr))\<rparr>"

definition stop_rejecting_client :: "(string, nat) client" where
  "stop_rejecting_client =
     \<lparr>futuresLeverage = (\<lambda>tr smb lev. Inr ()),
      futuresOrder = (\<lambda>tr r. if req_type r = ''STOP_MARKET'' then Inl ''stop rejected''
                               else Inr (1000 + length tr))\<rparr>"

definition example_long :: tradeParams where
  "example_long =
     \<lparr>side = ''LONG'', symbol = ''BTCUSDT'', leverage = Fin 20, quantity = Fin (1 / 100),
      stopLoss = Some (Fin 42000), takeProfit = Some (Fin 45000), hold = False\<rparr>"

definition renumbering_client :: "(string, nat) client" where
  "renumbering_client =
     \<lparr>futuresLeverage = (\<lambda>tr smb lev. Inr ()),
      futuresOrder = (\<lambda>tr r. if req_type r = ''MARKET'' then Inr (1000 + length tr)
                               else Inr (7000 + length tr))\<rparr>"

definition example_short :: tradeParams where
  "example_short =
     \<lparr>side = ''SHORT'', symbol = ''ETHUSDT'', leverage = Fin 10, quantity = Fin (1 / 10),
      stopLoss = Some (Fin 2100), takeProfit = Some (Fin 1800), hold = False\<rparr>"

definition example_hold :: tradeParams where
  "example_hold =
     \<lparr>side = ''SHORT'', symbol = ''ETHUSDT'', leverage = Fin 10, quantity = Fin (1 / 10),
      stopLoss = Some (Fin 100), takeProfit = Some (Fin 200), hold = True\<rparr>"

definition example_zero_stop :: tradeParams where
  "example_zero_stop =
     \<lparr>side = ''LONG'', symbol = ''BTCUSDT'', leverage = Fin 5, quantity = Fin 1,
      stopLoss = Some (Fin 0), takeProfit = Some (Fin 0), hold = False\<rparr>"

definition example_zero_stop_with_target :: tradeParams where
  "example_zero_stop_with_target =
     \<lparr>side = ''LONG'', symbol = ''BTCUSDT'', leverage = Fin 5, quantity = Fin 1,
      stopLoss = Some (Fin 0), takeProfit = Some (Fin 45000), hold = False\<rparr>"

section \<open>Evaluation\<close>

text \<open>A cheaper equation for evaluating \<open>number_of\<close> on everyday values.\<close>

lemma number_of_code [code]:
  "number_of r =
     (if r = 0 then Fin 0
      else if 1 / 10 ^ 9 \<le> \<bar>r\<bar> \<and> \<bar>r\<bar> \<le> 10 ^ 15 then Fin r
      else if \<bar>r\<bar> \<le> 1 / 2 ^ 1075 then Fin 0
      else if 2 ^ 1024 - 2 ^ 970 \<le> \<bar>r\<bar> then (if r < 0 then NegInf else PosInf)
      else Fin r)"
proof -
  have a: "(1::rat) / 2 ^ 1075 < 1 / 10 ^ 9" by simp
  have b: "(10::rat) ^ 15 < 2 ^ 1024 - 2 ^ 970" by simp
  show ?thesis using a b unfolding number_of_def by auto
qed

section \<open>Facts about the parser\<close>

text \<open>Decimal digits, and \<^verbatim>\<open>parseInt\<close> on a string of decimal digits.\<close>

lemma is_digit_10: "is_digit 10 c \<longleftrightarrow> c \<in> set ''0123456789''"
  by (auto simp add: is_digit_def digit_of_def split: if_splits)

lemma digit_of_10_nonneg: "is_digit 10 c \<Longrightarrow> 0 \<le> the (digit_of 10 c)"
  by (auto simp add: is_digit_def digit_of_def split: if_splits)

lemma digit_not_space: "is_digit 10 c \<Longrightarrow> \<not> is_space c"
  by (auto simp add: is_digit_10 is_space_def)

lemma foldl_digits_nonneg:
  "\<forall>c\<in>set ds. is_digit 10 c \<Longrightarrow> 0 \<le> acc \<Longrightarrow>
   0 \<le> foldl (\<lambda>acc c. acc * 10 + the (digit_of 10 c)) acc ds"
  by (induction ds arbitrary: acc) (simp_all add: digit_of_10_nonneg)

lemma digits_value_nonneg: "\<forall>c\<in>set ds. is_digit 10 c \<Longrightarrow> 0 \<le> digits_value 10 ds"
  by (simp add: digits_value_def foldl_digits_nonneg)

lemma replace_x_trailing:
  "CHR ''x'' \<notin> set ds \<Longrightarrow> replace_x (ds @ ''x'') = ds"
  by (induction ds) auto

lemma parseInt_digits:
  assumes "ds \<noteq> []" and "\<forall>c\<in>set ds. is_digit 10 c"
  shows "parseInt ds = number_of (of_int (digits_value 10 ds))"
proof -
  obtain c cs where ds: "ds = c # cs" using assms(1) by (cases ds) auto
  have c: "is_digit 10 c" using assms(2) ds by simp
  have sp: "dropWhile is_space ds = ds" using c ds by (simp add: digit_not_space)
  have sg: "strip_sign ds = (False, ds)" using c ds by (auto simp add: is_digit_10)
  have hx: "\<not> startsWith ds ''0x''" "\<not> startsWith ds ''0X''"
    using assms(2) ds by (cases cs; auto simp add: startsWith_def is_digit_10)+
  have tw: "takeWhile (is_digit 10) ds = ds" using assms(2) by (simp add: takeWhile_eq_all_conv)
  show ?thesis
    using assms(1) by (simp add: parseInt_def sp sg hx tw)
qed

text \<open>The comparisons of \<^verbatim>\<open>parseCommand\<close> on a rounded value.\<close>

lemma js_less_number_of:
  "js_less (number_of r) (Fin 1) \<longleftrightarrow> r < 1"
  "js_greater (number_of r) (Fin 125) \<longleftrightarrow> 125 < r"
  "js_le (number_of r) (Fin 0) \<longleftrightarrow> r \<le> 1 / 2 ^ 1075"
  "\<not> isNaN (number_of r)"
proof -
  have a: "(1::rat) / 2 ^ 1075 < 1" by simp
  have b: "(125::rat) < 2 ^ 1024 - 2 ^ 970" by simp
  have c: "(0::rat) < 1 / 2 ^ 1075" by simp
  show "js_less (number_of r) (Fin 1) \<longleftrightarrow> r < 1"
    using a b unfolding number_of_def by auto
  show "js_greater (number_of r) (Fin 125) \<longleftrightarrow> 125 < r"
    using a b unfolding number_of_def js_greater_def by auto
  show "js_le (number_of r) (Fin 0) \<longleftrightarrow> r \<le> 1 / 2 ^ 1075"
    using b c unfolding number_of_def js_le_def by auto
  show "\<not> isNaN (number_of r)"
    by (simp add: number_of_def isNaN_def)
qed

lemma leverage_token_value:
  assumes tok: "tk = ds @ ''x'' \<and> ds \<noteq> [] \<and> (\<forall>c\<in>set ds. is_digit 10 c)"
  shows "parseInt (replace_x tk) = number_of (of_int (digits_value 10 ds))"
proof -
  have "CHR ''x'' \<notin> set ds"
  proof
    assume "CHR ''x'' \<in> set ds"
    then have "is_digit 10 CHR ''x''" using tok by blast
    then show False by (simp add: is_digit_10)
  qed
  then have "replace_x tk = ds"
    using tok by (simp add: replace_x_trailing)
  moreover have "parseInt ds = number_of (of_int (digits_value 10 ds))"
    using tok by (intro parseInt_digits) simp_all
  ultimately show ?thesis by simp
qed

text \<open>The optional tokens change only \<open>stopLoss\<close>, \<open>takeProfit\<close> and \<open>hold\<close>.\<close>

lemma apply_param_keeps:
  "side (apply_param p tp) = side tp"
  "symbol (apply_param p tp) = symbol tp"
  "leverage (apply_param p tp) = leverage tp"
  "quantity (apply_param p tp) = quantity tp"
  by (simp_all add: apply_param_def Let_def)

lemma optional_params_keeps:
  "side (optional_params ps tp) = side tp \<and>
   symbol (optional_params ps tp) = symbol tp \<and>
   leverage (optional_params ps tp) = leverage tp \<and>
   quantity (optional_params ps tp) = quantity tp"
  by (induction ps arbitrary: tp) (simp_all add: apply_param_keeps)

text \<open>The four checks of \<^verbatim>\<open>parseCommand\<close>, in the order of the source.\<close>

lemma parse_checks:
  "parseCommand_try command =
     (if length (split_ws (trim command)) < 4 then Inl InsufficientParameters
      else if toUpperCase (split_ws (trim command) ! 0) \<notin> {''BUY'', ''SELL''}
        then Inl InvalidDirection
      else if isNaN (parseInt (replace_x (split_ws (trim command) ! 2))) \<or>
              js_less (parseInt (replace_x (split_ws (trim command) ! 2))) (Fin 1) \<or>
              js_greater (parseInt (replace_x (split_ws (trim command) ! 2))) (Fin 125)
        then Inl InvalidLeverage
      else if isNaN (parseFloat (split_ws (trim command) ! 3)) \<or>
              js_le (parseFloat (split_ws (trim command) ! 3)) (Fin 0)
        then Inl InvalidQuantity
      else Inr (optional_params (drop 4 (split_ws (trim command)))
             \<lparr>side = (if toUpperCase (split_ws (trim command) ! 0) = ''BUY''
                      then ''LONG'' else ''SHORT''),
              symbol = toUpperCase (split_ws (trim command) ! 1),
              leverage = parseInt (replace_x (split_ws (trim command) ! 2)),
              quantity = parseFloat (split_ws (trim command) ! 3),
              stopLoss = None, takeProfit = None, hold = False\<rparr>))"
  by (simp add: parseCommand_try_def Let_def)

lemma parse_after_direction:
  assumes "4 \<le> length (split_ws (trim command))"
    and "toUpperCase (split_ws (trim command) ! 0) \<in> {''BUY'', ''SELL''}"
  shows "parseCommand_try command =
      (if isNaN (parseInt (replace_x (split_ws (trim command) ! 2))) \<or>
              js_less (parseInt (replace_x (split_ws (trim command) ! 2))) (Fin 1) \<or>
              js_greater (parseInt (replace_x (split_ws (trim command) ! 2))) (Fin 125)
        then Inl InvalidLeverage
      else if isNaN (parseFloat (split_ws (trim command) ! 3)) \<or>
              js_le (parseFloat (split_ws (trim command) ! 3)) (Fin 0)
        then Inl InvalidQuantity
      else Inr (optional_params (drop 4 (split_ws (trim command)))
             \<lparr>side = (if toUpperCase (split_ws (trim command) ! 0) = ''BUY''
                      then ''LONG'' else ''SHORT''),
              symbol = toUpperCase (split_ws (trim command) ! 1),
              leverage = parseInt (replace_x (split_ws (trim command) ! 2)),
              quantity = parseFloat (split_ws (trim command) ! 3),
              stopLoss = None, takeProfit = None, hold = False\<rparr>))"
proof -
  have a: "\<not> length (split_ws (trim command)) < 4" using assms(1) by simp
  show ?thesis
    by (subst parse_checks) (simp only: a assms(2) if_False not_True_eq_False not_not)
qed

lemma parse_success_params:
  assumes "parseCommand_try command = Inr tp"
  shows "4 \<le> length (split_ws (trim command)) \<and>
         tp = optional_params (drop 4 (split_ws (trim command)))
                \<lparr>side = (if toUpperCase (split_ws (trim command) ! 0) = ''BUY''
                         then ''LONG'' else ''SHORT''),
                 symbol = toUpperCase (split_ws (trim command) ! 1),
                 leverage = parseInt (replace_x (split_ws (trim command) ! 2)),
                 quantity = parseFloat (split_ws (trim command) ! 3),
                 stopLoss = None, takeProfit = None, hold = False\<rparr>"
  using assms
  by (simp add: parseCommand_try_def Let_def del: set_simps split: if_splits)

section \<open>The order sequencing, call by call\<close>

text \<open>
  \<^verbatim>\<open>executeTrade\<close> unfolded through \<^verbatim>\<open>placeMarketOrder\<close>, \<^verbatim>\<open>setLeverage\<close> and the two
  conditional orders: the outcome and the calls made, by the answers of the client.
\<close>

lemma executeTrade_cases:
  "executeTrade cl tp tr =
    (let lev = FuturesLeverage (symbol tp) (leverage tp);
         mk = FuturesOrder (marketOrderRequest tp);
         sl = stopLossRequest (symbol tp) (closeSide (side tp)) (quantity tp) (the (stopLoss tp));
         tk = takeProfitRequest (symbol tp) (closeSide (side tp)) (quantity tp)
                (the (takeProfit tp))
     in case futuresLeverage cl tr (symbol tp) (leverage tp) of
          Inl e \<Rightarrow> (Inl e, tr @ [lev])
        | Inr u \<Rightarrow>
           (case futuresOrder cl (tr @ [lev]) (marketOrderRequest tp) of
              Inl e \<Rightarrow> (Inl e, tr @ [lev, mk])
            | Inr mainOrder \<Rightarrow>
               if hold tp then (Inr mainOrder, tr @ [lev, mk])
               else if truthy (stopLoss tp) then
                 (case futuresOrder cl (tr @ [lev, mk]) sl of
                    Inl e \<Rightarrow> (Inl e, tr @ [lev, mk, FuturesOrder sl])
                  | Inr v \<Rightarrow>
                     if truthy (takeProfit tp) then
                       (case futuresOrder cl (tr @ [lev, mk, FuturesOrder sl]) tk of
                          Inl e \<Rightarrow> (Inl e, tr @ [lev, mk, FuturesOrder sl, FuturesOrder tk])
                        | Inr w \<Rightarrow>
                            (Inr mainOrder, tr @ [lev, mk, FuturesOrder sl, FuturesOrder tk]))
                     else (Inr mainOrder, tr @ [lev, mk, FuturesOrder sl]))
               else if truthy (takeProfit tp) then
                 (case futuresOrder cl (tr @ [lev, mk]) tk of
                    Inl e \<Rightarrow> (Inl e, tr @ [lev, mk, FuturesOrder tk])
                  | Inr w \<Rightarrow> (Inr mainOrder, tr @ [lev, mk, FuturesOrder tk]))
               else (Inr mainOrder, tr @ [lev, mk])))"
  by (simp add: executeTrade_def placeMarketOrder_def setLeverage_def when_truthy_def
      placeStopLossOrder_def placeTakeProfitOrder_def Let_def split: sum.splits)

text \<open>The type and side of the three requests, and the kind of each call.\<close>

lemma request_fields:
  "req_type (marketOrderRequest tp) = ''MARKET''"
  "req_side (marketOrderRequest tp) = orderSide (side tp)"
  "req_type (stopLossRequest smb sd qty price) = ''STOP_MARKET''"
  "req_side (stopLossRequest smb sd qty price) = sd"
  "req_type (takeProfitRequest smb sd qty price) = ''TAKE_PROFIT_MARKET''"
  "req_side (takeProfitRequest smb sd qty price) = sd"
  by (simp_all add: marketOrderRequest_def stopLossRequest_def takeProfitRequest_def)

lemma call_kinds:
  "is_market_order (FuturesOrder (marketOrderRequest tp))"
  "\<not> is_conditional_order (FuturesOrder (marketOrderRequest tp))"
  "\<not> is_conditional_order (FuturesLeverage smb lev)"
  "is_stop_loss_order (FuturesOrder (stopLossRequest smb sd qty price))"
  "\<not> is_take_profit_order (FuturesOrder (stopLossRequest smb sd qty price))"
  "is_take_profit_order (FuturesOrder (takeProfitRequest smb sd qty price))"
  "\<not> is_stop_loss_order (FuturesOrder (takeProfitRequest smb sd qty price))"
  "\<not> is_stop_loss_order (FuturesOrder (marketOrderRequest tp))"
  "\<not> is_take_profit_order (FuturesOrder (marketOrderRequest tp))"
  by (simp_all add: is_conditional_order_def request_fields)

text \<open>
  Every order a run places is the market order, or, unless \<open>hold\<close>, the stop-loss
  order (when \<open>stopLoss\<close> is truthy) or the take-profit order (when \<open>takeProfit\<close> is
  truthy), each with the closing side.
\<close>

lemma order_calls_of_run:
  "FuturesOrder r \<in> set (calls_made tr (executeTrade cl tp tr)) \<Longrightarrow>
   r = marketOrderRequest tp \<or>
   (\<not> hold tp \<and> truthy (stopLoss tp) \<and>
    r = stopLossRequest (symbol tp) (closeSide (side tp))
          (quantity tp) (the (stopLoss tp))) \<or>
   (\<not> hold tp \<and> truthy (takeProfit tp) \<and>
    r = takeProfitRequest (symbol tp) (closeSide (side tp))
          (quantity tp) (the (takeProfit tp)))"
  by (auto simp add: executeTrade_cases calls_made_def Let_def split: sum.splits if_splits)

lemma executeTrade_hold:
  "hold tp \<Longrightarrow>
   executeTrade cl tp tr =
     (case futuresLeverage cl tr (symbol tp) (leverage tp) of
        Inl e \<Rightarrow> (Inl e, tr @ [FuturesLeverage (symbol tp) (leverage tp)])
      | Inr u \<Rightarrow>
          (futuresOrder cl (tr @ [FuturesLeverage (symbol tp) (leverage tp)])
             (marketOrderRequest tp),
           tr @ [FuturesLeverage (symbol tp) (leverage tp),
                 FuturesOrder (marketOrderRequest tp)]))"
  by (simp add: executeTrade_def placeMarketOrder_def setLeverage_def split: sum.splits)


section \<open>Claim C3: a failed step stops the run\<close>

text \<open>
  Claim C3. When the leverage call fails, the run fails with that error and makes
  no order call of any kind. When the leverage call succeeds and the market entry
  fails, the run fails with that error and makes no conditional (stop-loss or
  take-profit) order call.
\<close>

theorem C3_failed_step_stops_the_run:
  "(futuresLeverage cl tr (symbol tp) (leverage tp) = Inl e \<longrightarrow>
      fst (executeTrade cl tp tr) = Inl e \<and>
      filter is_order_call (calls_made tr (executeTrade cl tp tr)) = [])
   \<and> (futuresLeverage cl tr (symbol tp) (leverage tp) = Inr () \<and>
      futuresOrder cl (tr @ [FuturesLeverage (symbol tp) (leverage tp)]) (marketOrderRequest tp)
        = Inl e \<longrightarrow>
      fst (executeTrade cl tp tr) = Inl e \<and>
      filter is_conditional_order (calls_made tr (executeTrade cl tp tr)) = [])"
  by (simp add: executeTrade_cases calls_made_def call_kinds Let_def)

text \<open>Claim C3, witness: a client that rejects the leverage call, one that rejects the market order.\<close>

theorem C3_failed_step_witness:
  "futuresLeverage leverage_rejecting_client [] ''BTCUSDT'' (Fin 20) = Inl ''leverage rejected''
   \<and> fst (executeTrade leverage_rejecting_client example_long []) = Inl ''leverage rejected''
   \<and> filter is_order_call
        (calls_made [] (executeTrade leverage_rejecting_client example_long [])) = []
   \<and> futuresLeverage entry_rejecting_client [] ''BTCUSDT'' (Fin 20) = Inr ()
   \<and> futuresOrder entry_rejecting_client [FuturesLeverage ''BTCUSDT'' (Fin 20)]
        (marketOrderRequest example_long) = Inl ''insufficient margin''
   \<and> fst (executeTrade entry_rejecting_client example_long []) = Inl ''insufficient margin''
   \<and> filter is_conditional_order
        (calls_made [] (executeTrade entry_rejecting_client example_long [])) = []"
proof -
  have a: "futuresLeverage leverage_rejecting_client [] (symbol example_long)
             (leverage example_long) = Inl ''leverage rejected''"
    by (simp add: leverage_rejecting_client_def)
  have b: "futuresLeverage entry_rejecting_client [] (symbol example_long)
             (leverage example_long) = Inr ()"
    by (simp add: entry_rejecting_client_def)
  have c: "futuresOrder entry_rejecting_client
             ([] @ [FuturesLeverage (symbol example_long) (leverage example_long)])
             (marketOrderRequest example_long) = Inl ''insufficient margin''"
    by (simp add: entry_rejecting_client_def marketOrderRequest_def)
  have s: "symbol example_long = ''BTCUSDT''" "leverage example_long = Fin 20"
    by (simp_all add: example_long_def)
  show ?thesis
    using C3_failed_step_stops_the_run
            [of leverage_rejecting_client "[]" example_long "''leverage rejected''"]
          C3_failed_step_stops_the_run
            [of entry_rejecting_client "[]" example_long "''insufficient margin''"]
          a b c
    by (simp add: s)
qed

section \<open>Claim C4: hold mode\<close>

text \<open>
  Claim C4 says that every run of an intent with \<open>hold = true\<close> issues exactly one
  market-entry order call. Counterexample: when the client rejects the leverage
  call, the run of a \<open>hold\<close> intent issues no market-entry order call.
\<close>

theorem C4_counterexample:
  "hold example_hold \<and>
   length (filter is_market_order
     (calls_made [] (executeTrade leverage_rejecting_client example_hold []))) = 0"
proof -
  have h: "hold example_hold" by (simp add: example_hold_def)
  show ?thesis
    by (simp add: h executeTrade_hold calls_made_def leverage_rejecting_client_def)
qed

text \<open>
  Claim C4, as amended. For every intent with \<open>hold = true\<close>, whatever its
  \<open>stopLoss\<close> and \<open>takeProfit\<close>, a run makes no conditional-order call and exactly
  one leverage call; it makes exactly one market-entry order call, and no other
  order call, when the leverage call succeeds, and no order call at all when the
  leverage call fails.
\<close>

theorem C4_hold_places_no_conditional_order:
  "hold tp \<Longrightarrow>
   length (filter is_conditional_order (calls_made tr (executeTrade cl tp tr))) = 0 \<and>
   length (filter is_leverage_call (calls_made tr (executeTrade cl tp tr))) = 1 \<and>
   length (filter is_market_order (calls_made tr (executeTrade cl tp tr))) =
     (case futuresLeverage cl tr (symbol tp) (leverage tp) of Inl e \<Rightarrow> 0 | Inr u \<Rightarrow> 1) \<and>
   length (filter is_order_call (calls_made tr (executeTrade cl tp tr))) =
     (case futuresLeverage cl tr (symbol tp) (leverage tp) of Inl e \<Rightarrow> 0 | Inr u \<Rightarrow> 1)"
  by (cases "futuresLeverage cl tr (symbol tp) (leverage tp)")
     (simp_all add: executeTrade_hold calls_made_def call_kinds request_fields)

text \<open>Claim C4, witness: a \<open>hold\<close> intent with both prices set, on the accepting client.\<close>

theorem C4_hold_witness:
  "hold example_hold \<and> truthy (stopLoss example_hold) \<and> truthy (takeProfit example_hold) \<and>
   length (filter is_conditional_order
     (calls_made [] (executeTrade accepting_client example_hold []))) = 0 \<and>
   length (filter is_leverage_call
     (calls_made [] (executeTrade accepting_client example_hold []))) = 1 \<and>
   length (filter is_market_order
     (calls_made [] (executeTrade accepting_client example_hold []))) = 1 \<and>
   length (filter is_order_call
     (calls_made [] (executeTrade accepting_client example_hold []))) = 1"
proof -
  have h: "hold example_hold" by (simp add: example_hold_def)
  have t: "truthy (stopLoss example_hold)" "truthy (takeProfit example_hold)"
    by (simp_all add: example_hold_def)
  have l: "futuresLeverage accepting_client [] (symbol example_hold) (leverage example_hold)
             = Inr ()"
    by (simp add: accepting_client_def)
  show ?thesis
    using C4_hold_places_no_conditional_order [OF h, of "[]" accepting_client] h t
    by (simp add: l)
qed

section \<open>Claim C8: entry side and closing side\<close>

text \<open>
  Claim C8. For every intent with \<open>hold = false\<close>, every order a run places is a
  market, stop-loss or take-profit order; for side \<open>LONG\<close> the market order has
  side \<open>BUY\<close> and the stop-loss and take-profit orders have side \<open>SELL\<close>; for side
  \<open>SHORT\<close> the market order has side \<open>SELL\<close> and the stop-loss and take-profit
  orders have side \<open>BUY\<close>.
\<close>

theorem C8_entry_and_closing_sides:
  "\<not> hold tp \<Longrightarrow> FuturesOrder r \<in> set (calls_made tr (executeTrade cl tp tr)) \<Longrightarrow>
   req_type r \<in> {''MARKET'', ''STOP_MARKET'', ''TAKE_PROFIT_MARKET''} \<and>
   (side tp = ''LONG'' \<longrightarrow>
      (req_type r = ''MARKET'' \<longrightarrow> req_side r = ''BUY'') \<and>
      (req_type r = ''STOP_MARKET'' \<longrightarrow> req_side r = ''SELL'') \<and>
      (req_type r = ''TAKE_PROFIT_MARKET'' \<longrightarrow> req_side r = ''SELL'')) \<and>
   (side tp = ''SHORT'' \<longrightarrow>
      (req_type r = ''MARKET'' \<longrightarrow> req_side r = ''SELL'') \<and>
      (req_type r = ''STOP_MARKET'' \<longrightarrow> req_side r = ''BUY'') \<and>
      (req_type r = ''TAKE_PROFIT_MARKET'' \<longrightarrow> req_side r = ''BUY''))"
proof -
  assume "FuturesOrder r \<in> set (calls_made tr (executeTrade cl tp tr))"
  then consider
      (market) "r = marketOrderRequest tp"
    | (stop) "r = stopLossRequest (symbol tp) (closeSide (side tp))
                    (quantity tp) (the (stopLoss tp))"
    | (take) "r = takeProfitRequest (symbol tp) (closeSide (side tp))
                    (quantity tp) (the (takeProfit tp))"
    using order_calls_of_run by blast
  then show ?thesis
  proof cases
    case market
    then show ?thesis by (simp add: request_fields orderSide_def closeSide_def)
  next
    case stop
    then show ?thesis by (simp add: request_fields orderSide_def closeSide_def)
  next
    case take
    then show ?thesis by (simp add: request_fields orderSide_def closeSide_def)
  qed
qed

text \<open>The two example intents with both prices, run on the accepting client.\<close>

lemma run_example_long:
  "executeTrade accepting_client example_long [] =
     (Inr 1001,
      [FuturesLeverage ''BTCUSDT'' (Fin 20),
       FuturesOrder (marketOrderRequest example_long),
       FuturesOrder (stopLossRequest ''BTCUSDT'' ''SELL'' (Fin (1 / 100)) (Fin 42000)),
       FuturesOrder (takeProfitRequest ''BTCUSDT'' ''SELL'' (Fin (1 / 100)) (Fin 45000))])"
  by (simp add: executeTrade_cases Let_def example_long_def accepting_client_def closeSide_def)

lemma run_example_short:
  "executeTrade accepting_client example_short [] =
     (Inr 1001,
      [FuturesLeverage ''ETHUSDT'' (Fin 10),
       FuturesOrder (marketOrderRequest example_short),
       FuturesOrder (stopLossRequest ''ETHUSDT'' ''BUY'' (Fin (1 / 10)) (Fin 2100)),
       FuturesOrder (takeProfitRequest ''ETHUSDT'' ''BUY'' (Fin (1 / 10)) (Fin 1800))])"
  by (simp add: executeTrade_cases Let_def example_short_def accepting_client_def closeSide_def)

text \<open>Claim C8, witness: the orders of a \<open>LONG\<close> run and of a \<open>SHORT\<close> run.\<close>

theorem C8_sides_witness:
  "\<not> hold example_long \<and> side example_long = ''LONG'' \<and>
   FuturesOrder (marketOrderRequest example_long)
     \<in> set (calls_made [] (executeTrade accepting_client example_long [])) \<and>
   req_type (marketOrderRequest example_long) = ''MARKET'' \<and>
   req_side (marketOrderRequest example_long) = ''BUY'' \<and>
   FuturesOrder (stopLossRequest ''BTCUSDT'' ''SELL'' (Fin (1 / 100)) (Fin 42000))
     \<in> set (calls_made [] (executeTrade accepting_client example_long [])) \<and>
   \<not> hold example_short \<and> side example_short = ''SHORT'' \<and>
   FuturesOrder (marketOrderRequest example_short)
     \<in> set (calls_made [] (executeTrade accepting_client example_short [])) \<and>
   req_side (marketOrderRequest example_short) = ''SELL'' \<and>
   FuturesOrder (takeProfitRequest ''ETHUSDT'' ''BUY'' (Fin (1 / 10)) (Fin 1800))
     \<in> set (calls_made [] (executeTrade accepting_client example_short []))"
proof -
  have h: "\<not> hold example_long" "\<not> hold example_short"
    by (simp_all add: example_long_def example_short_def)
  have s: "side example_long = ''LONG''" "side example_short = ''SHORT''"
    by (simp_all add: example_long_def example_short_def)
  have m1: "FuturesOrder (marketOrderRequest example_long)
              \<in> set (calls_made [] (executeTrade accepting_client example_long []))"
    by (simp add: run_example_long calls_made_def)
  have m2: "FuturesOrder (marketOrderRequest example_short)
              \<in> set (calls_made [] (executeTrade accepting_client example_short []))"
    by (simp add: run_example_short calls_made_def)
  show ?thesis
    using C8_entry_and_closing_sides [OF h(1) m1] C8_entry_and_closing_sides [OF h(2) m2]
      h s m1 m2
    by (simp add: request_fields run_example_long run_example_short calls_made_def orderSide_def)
qed



section \<open>Claim C1: a stop-loss order that fails\<close>

text \<open>
  Claim C1 says that a stop-loss order that fails after the entry succeeded is not
  fatal and is not propagated as an error. Counterexample: on a client that
  accepts the market order (order 1001) and rejects the stop-loss order,
  \<^verbatim>\<open>executeTrade\<close> throws the error of the stop-loss order.
\<close>

theorem C1_counterexample:
  "futuresOrder stop_rejecting_client [FuturesLeverage ''BTCUSDT'' (Fin 20)]
     (marketOrderRequest example_long) = Inr 1001 \<and>
   executeTrade stop_rejecting_client example_long [] =
     (Inl ''stop rejected'',
      [FuturesLeverage ''BTCUSDT'' (Fin 20),
       FuturesOrder (marketOrderRequest example_long),
       FuturesOrder (stopLossRequest ''BTCUSDT'' ''SELL'' (Fin (1 / 100)) (Fin 42000))])"
  by (simp add: executeTrade_cases Let_def example_long_def stop_rejecting_client_def
      request_fields closeSide_def)

text \<open>
  Claim C1, as amended. If the stop-loss order fails after the leverage call and
  the market entry succeeded, \<^verbatim>\<open>executeTrade\<close> throws the error of the stop-loss
  order; the calls made are the leverage call, the market order and the stop-loss
  order, so the entry order stands (nothing cancels it) and no take-profit order is
  attempted; and \<^verbatim>\<open>processCommand\<close> returns \<^verbatim>\<open>false\<close> for a command that parses to
  this intent.
\<close>

theorem C1_stop_loss_failure_is_fatal:
  assumes "\<not> hold tp" and "truthy (stopLoss tp)"
    and "futuresLeverage cl tr (symbol tp) (leverage tp) = Inr ()"
    and "futuresOrder cl (tr @ [FuturesLeverage (symbol tp) (leverage tp)])
           (marketOrderRequest tp) = Inr mainOrder"
    and "futuresOrder cl
           (tr @ [FuturesLeverage (symbol tp) (leverage tp),
                  FuturesOrder (marketOrderRequest tp)])
           (stopLossRequest (symbol tp) (closeSide (side tp))
              (quantity tp) (the (stopLoss tp))) = Inl e"
  shows "executeTrade cl tp tr =
           (Inl e,
            tr @ [FuturesLeverage (symbol tp) (leverage tp),
                  FuturesOrder (marketOrderRequest tp),
                  FuturesOrder (stopLossRequest (symbol tp)
                    (closeSide (side tp))
                    (quantity tp) (the (stopLoss tp)))])
         \<and> filter is_take_profit_order (calls_made tr (executeTrade cl tp tr)) = []
         \<and> (fst (parseCommand command) = Some tp \<longrightarrow>
              fst (processCommand cl command tr) = False)"
proof -
  have run: "executeTrade cl tp tr =
           (Inl e,
            tr @ [FuturesLeverage (symbol tp) (leverage tp),
                  FuturesOrder (marketOrderRequest tp),
                  FuturesOrder (stopLossRequest (symbol tp)
                    (closeSide (side tp))
                    (quantity tp) (the (stopLoss tp)))])"
    using assms by (simp add: executeTrade_cases Let_def)
  have "fst (processCommand cl command tr) = False" if "fst (parseCommand command) = Some tp"
    using that run by (cases "parseCommand command") (simp add: processCommand_def)
  then show ?thesis
    by (simp add: run calls_made_def call_kinds request_fields)
qed

text \<open>The first example command of the source's documentation.\<close>

lemma parse_example_long:
  "parseCommand ''BUY BTCUSDT 20x 0.01 SL=42000 TP=45000'' = (Some example_long, [])"
  by code_simp

text \<open>Claim C1, witness: the example command on the client that rejects stop-loss orders.\<close>

theorem C1_stop_loss_failure_witness:
  "\<not> hold example_long \<and> truthy (stopLoss example_long) \<and>
   fst (executeTrade stop_rejecting_client example_long []) = Inl ''stop rejected'' \<and>
   filter is_take_profit_order
     (calls_made [] (executeTrade stop_rejecting_client example_long [])) = [] \<and>
   fst (parseCommand ''BUY BTCUSDT 20x 0.01 SL=42000 TP=45000'') = Some example_long \<and>
   fst (processCommand stop_rejecting_client ''BUY BTCUSDT 20x 0.01 SL=42000 TP=45000'' [])
     = False"
proof -
  have h: "\<not> hold example_long" and t: "truthy (stopLoss example_long)"
    by (simp_all add: example_long_def)
  have l: "futuresLeverage stop_rejecting_client [] (symbol example_long)
             (leverage example_long) = Inr ()"
    by (simp add: stop_rejecting_client_def)
  have m: "futuresOrder stop_rejecting_client
             ([] @ [FuturesLeverage (symbol example_long) (leverage example_long)])
             (marketOrderRequest example_long) = Inr 1001"
    by (simp add: stop_rejecting_client_def request_fields)
  have s: "futuresOrder stop_rejecting_client
             ([] @ [FuturesLeverage (symbol example_long) (leverage example_long),
                    FuturesOrder (marketOrderRequest example_long)])
             (stopLossRequest (symbol example_long)
                (closeSide (side example_long))
                (quantity example_long) (the (stopLoss example_long))) = Inl ''stop rejected''"
    by (simp add: stop_rejecting_client_def request_fields)
  have p: "fst (parseCommand ''BUY BTCUSDT 20x 0.01 SL=42000 TP=45000'') = Some example_long"
    by (simp add: parse_example_long)
  show ?thesis
    using C1_stop_loss_failure_is_fatal [OF h t l m s,
            of "''BUY BTCUSDT 20x 0.01 SL=42000 TP=45000''"] h t p
    by (simp add: calls_made_def call_kinds request_fields)
qed

section \<open>Claim C2: the value returned\<close>

text \<open>
  Claim C2 says that the value returned contains the references of the stop-loss
  and take-profit orders placed. Counterexample: two clients answer the stop-loss
  order of the same run with the orders 1002 and 7002; both runs place all three
  orders, and both return the order 1001 of the market entry and nothing else.
\<close>

theorem C2_counterexample:
  "executeTrade accepting_client example_long [] =
     (Inr 1001,
      [FuturesLeverage ''BTCUSDT'' (Fin 20),
       FuturesOrder (marketOrderRequest example_long),
       FuturesOrder (stopLossRequest ''BTCUSDT'' ''SELL'' (Fin (1 / 100)) (Fin 42000)),
       FuturesOrder (takeProfitRequest ''BTCUSDT'' ''SELL'' (Fin (1 / 100)) (Fin 45000))]) \<and>
   futuresOrder accepting_client
     [FuturesLeverage ''BTCUSDT'' (Fin 20), FuturesOrder (marketOrderRequest example_long)]
     (stopLossRequest ''BTCUSDT'' ''SELL'' (Fin (1 / 100)) (Fin 42000)) = Inr 1002 \<and>
   futuresOrder renumbering_client
     [FuturesLeverage ''BTCUSDT'' (Fin 20), FuturesOrder (marketOrderRequest example_long)]
     (stopLossRequest ''BTCUSDT'' ''SELL'' (Fin (1 / 100)) (Fin 42000)) = Inr 7002 \<and>
   fst (executeTrade renumbering_client example_long []) = Inr 1001 \<and>
   snd (executeTrade renumbering_client example_long []) =
     snd (executeTrade accepting_client example_long [])"
  by (simp add: executeTrade_cases Let_def example_long_def accepting_client_def
      renumbering_client_def request_fields closeSide_def)

text \<open>
  Claim C2, as amended. For every intent executed successfully, the value
  \<^verbatim>\<open>executeTrade\<close> returns is the response of the client to the market entry order;
  the responses to the stop-loss and take-profit orders are not part of it: two
  clients that give the market entry order the same response make a successful
  run return the same value, whatever they answer to the conditional orders.
\<close>

theorem C2_returns_the_entry_order_only:
  "executeTrade cl tp tr = (Inr v, tr1) \<Longrightarrow>
   futuresOrder cl (tr @ [FuturesLeverage (symbol tp) (leverage tp)]) (marketOrderRequest tp)
     = Inr v \<and>
   (\<forall>cl2 v2 tr2.
      executeTrade cl2 tp tr = (Inr v2, tr2) \<and>
      futuresOrder cl2 (tr @ [FuturesLeverage (symbol tp) (leverage tp)])
        (marketOrderRequest tp) =
      futuresOrder cl (tr @ [FuturesLeverage (symbol tp) (leverage tp)])
        (marketOrderRequest tp) \<longrightarrow>
      v2 = v)"
proof -
  have entry: "futuresOrder c (tr @ [FuturesLeverage (symbol tp) (leverage tp)])
                 (marketOrderRequest tp) = Inr w"
    if "executeTrade c tp tr = (Inr w, t)" for c :: "('a, 'b) client" and w t
    using that by (simp add: executeTrade_cases Let_def split: sum.splits if_splits)
  assume run: "executeTrade cl tp tr = (Inr v, tr1)"
  show ?thesis
  proof (intro conjI allI impI)
    show "futuresOrder cl (tr @ [FuturesLeverage (symbol tp) (leverage tp)])
            (marketOrderRequest tp) = Inr v"
      using run by (rule entry)
  next
    fix cl2 :: "('a, 'b) client" and v2 tr2
    assume a: "executeTrade cl2 tp tr = (Inr v2, tr2) \<and>
      futuresOrder cl2 (tr @ [FuturesLeverage (symbol tp) (leverage tp)])
        (marketOrderRequest tp) =
      futuresOrder cl (tr @ [FuturesLeverage (symbol tp) (leverage tp)])
        (marketOrderRequest tp)"
    then have "futuresOrder cl2 (tr @ [FuturesLeverage (symbol tp) (leverage tp)])
                 (marketOrderRequest tp) = Inr v2"
      using entry [of cl2 v2 tr2] by simp
    then show "v2 = v" using a entry [OF run] by simp
  qed
qed

text \<open>Claim C2, witness: a successful run with all three orders placed.\<close>

theorem C2_entry_order_witness:
  "executeTrade accepting_client example_long [] =
     (Inr 1001, snd (executeTrade accepting_client example_long [])) \<and>
   futuresOrder accepting_client
     [FuturesLeverage (symbol example_long) (leverage example_long)]
     (marketOrderRequest example_long) = Inr 1001"
proof -
  have r: "executeTrade accepting_client example_long [] =
             (Inr 1001, snd (executeTrade accepting_client example_long []))"
    by (simp add: run_example_long)
  show ?thesis
    using C2_returns_the_entry_order_only [OF r, THEN conjunct1] r by simp
qed

section \<open>Claim C10: a protective price of zero\<close>

text \<open>
  The loop over the optional tokens: a token changes \<open>stopLoss\<close> only when it starts
  with \<^verbatim>\<open>SL=\<close> and its value is a number, and \<open>takeProfit\<close> only when it starts with
  \<^verbatim>\<open>TP=\<close> and its value is a number.
\<close>

lemma optional_params_append:
  "optional_params (xs @ ys) tp = optional_params ys (optional_params xs tp)"
  by (induction xs arbitrary: tp) simp_all

lemma apply_param_zero:
  "apply_param ''SL=0'' tp = tp\<lparr>stopLoss := Some (Fin 0)\<rparr>"
  "apply_param ''TP=0'' tp = tp\<lparr>takeProfit := Some (Fin 0)\<rparr>"
  by code_simp+

lemma apply_param_keeps_prices:
  "startsWith p ''SL='' \<longrightarrow> isNaN (param_value p) \<Longrightarrow>
     stopLoss (apply_param p tp) = stopLoss tp"
  "startsWith p ''TP='' \<longrightarrow> isNaN (param_value p) \<Longrightarrow>
     takeProfit (apply_param p tp) = takeProfit tp"
  by (simp_all add: apply_param_def Let_def)

lemma optional_params_keeps_stopLoss:
  "\<forall>p\<in>set ps. startsWith p ''SL='' \<longrightarrow> isNaN (param_value p) \<Longrightarrow>
     stopLoss (optional_params ps tp) = stopLoss tp"
  by (induction ps arbitrary: tp) (simp_all add: apply_param_keeps_prices)

lemma optional_params_keeps_takeProfit:
  "\<forall>p\<in>set ps. startsWith p ''TP='' \<longrightarrow> isNaN (param_value p) \<Longrightarrow>
     takeProfit (optional_params ps tp) = takeProfit tp"
  by (induction ps arbitrary: tp) (simp_all add: apply_param_keeps_prices)

text \<open>
  A successful parse of a command whose token \<open>x\<close> stands at an optional position
  has applied \<open>x\<close>, and then the tokens after it.
\<close>

lemma optional_token_applied:
  assumes "parseCommand_try command = Inr tp"
    and "split_ws (trim command) = pre @ x # post"
    and "4 \<le> length pre"
  shows "\<exists>tp1. tp = optional_params post (apply_param x tp1)"
proof -
  obtain tp0 where tp: "tp = optional_params (drop 4 (split_ws (trim command))) tp0"
    using parse_success_params [OF assms(1)] by blast
  have "drop 4 (split_ws (trim command)) = drop 4 pre @ x # post"
    using assms(2,3) by simp
  then have "tp = optional_params post (apply_param x (optional_params (drop 4 pre) tp0))"
    using tp optional_params_append [of "drop 4 pre" "x # post" tp0] by simp
  then show ?thesis by blast
qed

lemma no_order_unless_truthy:
  "\<not> truthy (stopLoss tp) \<Longrightarrow>
     filter is_stop_loss_order (calls_made tr (executeTrade cl tp tr)) = []"
  "\<not> truthy (takeProfit tp) \<Longrightarrow>
     filter is_take_profit_order (calls_made tr (executeTrade cl tp tr)) = []"
  by (simp_all add: executeTrade_cases calls_made_def Let_def call_kinds request_fields
      split: sum.splits)

text \<open>
  Claim C10. A command that parses and has the token \<^verbatim>\<open>SL=0\<close> (\<^verbatim>\<open>TP=0\<close>) at any
  optional position (after the first four tokens), with no later token that sets
  the same price (no later token that starts with \<^verbatim>\<open>SL=\<close>, resp. \<^verbatim>\<open>TP=\<close>, and has a
  number as its value), gives an intent whose \<open>stopLoss\<close> (\<open>takeProfit\<close>) is the
  number 0; and a run of an intent with \<open>hold = false\<close> whose \<open>stopLoss\<close>
  (\<open>takeProfit\<close>) is 0 places no stop-loss (take-profit) order, since
  \<^verbatim>\<open>if (stopLoss)\<close> and \<^verbatim>\<open>if (takeProfit)\<close> test truthiness.
\<close>

theorem C10_zero_price_is_stored_but_places_no_order:
  "(parseCommand_try command = Inr tp \<and>
      split_ws (trim command) = pre @ ''SL=0'' # post \<and> 4 \<le> length pre \<and>
      (\<forall>p\<in>set post. startsWith p ''SL='' \<longrightarrow> isNaN (param_value p)) \<longrightarrow>
        stopLoss tp = Some (Fin 0)) \<and>
   (parseCommand_try command = Inr tp \<and>
      split_ws (trim command) = pre @ ''TP=0'' # post \<and> 4 \<le> length pre \<and>
      (\<forall>p\<in>set post. startsWith p ''TP='' \<longrightarrow> isNaN (param_value p)) \<longrightarrow>
        takeProfit tp = Some (Fin 0)) \<and>
   (\<not> hold tp \<and> stopLoss tp = Some (Fin 0) \<longrightarrow>
      filter is_stop_loss_order (calls_made tr (executeTrade cl tp tr)) = []) \<and>
   (\<not> hold tp \<and> takeProfit tp = Some (Fin 0) \<longrightarrow>
      filter is_take_profit_order (calls_made tr (executeTrade cl tp tr)) = [])"
proof (intro conjI impI)
  assume a: "parseCommand_try command = Inr tp \<and>
      split_ws (trim command) = pre @ ''SL=0'' # post \<and> 4 \<le> length pre \<and>
      (\<forall>p\<in>set post. startsWith p ''SL='' \<longrightarrow> isNaN (param_value p))"
  then obtain tp1 where "tp = optional_params post (apply_param ''SL=0'' tp1)"
    using optional_token_applied [of command tp pre "''SL=0''" post] by blast
  then have "stopLoss tp = stopLoss (apply_param ''SL=0'' tp1)"
    using a by (simp add: optional_params_keeps_stopLoss)
  then show "stopLoss tp = Some (Fin 0)" by (simp add: apply_param_zero)
next
  assume a: "parseCommand_try command = Inr tp \<and>
      split_ws (trim command) = pre @ ''TP=0'' # post \<and> 4 \<le> length pre \<and>
      (\<forall>p\<in>set post. startsWith p ''TP='' \<longrightarrow> isNaN (param_value p))"
  then obtain tp1 where "tp = optional_params post (apply_param ''TP=0'' tp1)"
    using optional_token_applied [of command tp pre "''TP=0''" post] by blast
  then have "takeProfit tp = takeProfit (apply_param ''TP=0'' tp1)"
    using a by (simp add: optional_params_keeps_takeProfit)
  then show "takeProfit tp = Some (Fin 0)" by (simp add: apply_param_zero)
next
  assume "\<not> hold tp \<and> stopLoss tp = Some (Fin 0)"
  then show "filter is_stop_loss_order (calls_made tr (executeTrade cl tp tr)) = []"
    by (simp add: no_order_unless_truthy)
next
  assume "\<not> hold tp \<and> takeProfit tp = Some (Fin 0)"
  then show "filter is_take_profit_order (calls_made tr (executeTrade cl tp tr)) = []"
    by (simp add: no_order_unless_truthy)
qed

text \<open>Two commands with a price of zero: one followed by a take-profit price, one
  with both prices zero.\<close>

lemma parse_example_zero_stop:
  "parseCommand_try ''BUY BTCUSDT 5x 1 SL=0 TP=45000'' = Inr example_zero_stop_with_target"
  "split_ws (trim ''BUY BTCUSDT 5x 1 SL=0 TP=45000'') =
     [''BUY'', ''BTCUSDT'', ''5x'', ''1''] @ ''SL=0'' # [''TP=45000'']"
  "parseCommand_try ''BUY BTCUSDT 5x 1 TP=0 SL=0'' = Inr example_zero_stop"
  "split_ws (trim ''BUY BTCUSDT 5x 1 TP=0 SL=0'') =
     [''BUY'', ''BTCUSDT'', ''5x'', ''1''] @ ''TP=0'' # [''SL=0'']"
  "\<not> startsWith ''TP=45000'' ''SL=''"
  "\<not> startsWith ''SL=0'' ''TP=''"
  by code_simp+

text \<open>
  Claim C10, witness: \<^verbatim>\<open>BUY BTCUSDT 5x 1 SL=0 TP=45000\<close> stores the stop loss 0 and
  places the take-profit order but no stop-loss order; \<^verbatim>\<open>BUY BTCUSDT 5x 1 TP=0 SL=0\<close>
  stores both prices as 0 and places neither conditional order.
\<close>

theorem C10_zero_price_witness:
  "parseCommand_try ''BUY BTCUSDT 5x 1 SL=0 TP=45000'' = Inr example_zero_stop_with_target \<and>
   stopLoss example_zero_stop_with_target = Some (Fin 0) \<and>
   \<not> hold example_zero_stop_with_target \<and>
   filter is_stop_loss_order
     (calls_made [] (executeTrade accepting_client example_zero_stop_with_target [])) = [] \<and>
   calls_made [] (executeTrade accepting_client example_zero_stop_with_target []) =
     [FuturesLeverage ''BTCUSDT'' (Fin 5),
      FuturesOrder (marketOrderRequest example_zero_stop_with_target),
      FuturesOrder (takeProfitRequest ''BTCUSDT'' ''SELL'' (Fin 1) (Fin 45000))] \<and>
   parseCommand_try ''BUY BTCUSDT 5x 1 TP=0 SL=0'' = Inr example_zero_stop \<and>
   takeProfit example_zero_stop = Some (Fin 0) \<and> \<not> hold example_zero_stop \<and>
   filter is_take_profit_order
     (calls_made [] (executeTrade accepting_client example_zero_stop [])) = [] \<and>
   calls_made [] (executeTrade accepting_client example_zero_stop []) =
     [FuturesLeverage ''BTCUSDT'' (Fin 5), FuturesOrder (marketOrderRequest example_zero_stop)]"
proof -
  have p1: "parseCommand_try ''BUY BTCUSDT 5x 1 SL=0 TP=45000'' =
              Inr example_zero_stop_with_target \<and>
            split_ws (trim ''BUY BTCUSDT 5x 1 SL=0 TP=45000'') =
              [''BUY'', ''BTCUSDT'', ''5x'', ''1''] @ ''SL=0'' # [''TP=45000''] \<and>
            4 \<le> length [''BUY'', ''BTCUSDT'', ''5x'', ''1''] \<and>
            (\<forall>p\<in>set [''TP=45000'']. startsWith p ''SL='' \<longrightarrow> isNaN (param_value p))"
    by (simp add: parse_example_zero_stop)
  have p2: "parseCommand_try ''BUY BTCUSDT 5x 1 TP=0 SL=0'' = Inr example_zero_stop \<and>
            split_ws (trim ''BUY BTCUSDT 5x 1 TP=0 SL=0'') =
              [''BUY'', ''BTCUSDT'', ''5x'', ''1''] @ ''TP=0'' # [''SL=0''] \<and>
            4 \<le> length [''BUY'', ''BTCUSDT'', ''5x'', ''1''] \<and>
            (\<forall>p\<in>set [''SL=0'']. startsWith p ''TP='' \<longrightarrow> isNaN (param_value p))"
    by (simp add: parse_example_zero_stop)
  have h: "\<not> hold example_zero_stop_with_target" "\<not> hold example_zero_stop"
    by (simp_all add: example_zero_stop_with_target_def example_zero_stop_def)
  have r1: "calls_made [] (executeTrade accepting_client example_zero_stop_with_target []) =
     [FuturesLeverage ''BTCUSDT'' (Fin 5),
      FuturesOrder (marketOrderRequest example_zero_stop_with_target),
      FuturesOrder (takeProfitRequest ''BTCUSDT'' ''SELL'' (Fin 1) (Fin 45000))]"
    by (simp add: executeTrade_cases Let_def calls_made_def example_zero_stop_with_target_def
        accepting_client_def closeSide_def)
  have r2: "calls_made [] (executeTrade accepting_client example_zero_stop []) =
     [FuturesLeverage ''BTCUSDT'' (Fin 5), FuturesOrder (marketOrderRequest example_zero_stop)]"
    by (simp add: executeTrade_cases Let_def calls_made_def example_zero_stop_def
        accepting_client_def)
  note T1 = C10_zero_price_is_stored_but_places_no_order
              [of "''BUY BTCUSDT 5x 1 SL=0 TP=45000''" example_zero_stop_with_target
                  "[''BUY'', ''BTCUSDT'', ''5x'', ''1'']" "[''TP=45000'']" "[]" accepting_client]
  note T2 = C10_zero_price_is_stored_but_places_no_order
              [of "''BUY BTCUSDT 5x 1 TP=0 SL=0''" example_zero_stop
                  "[''BUY'', ''BTCUSDT'', ''5x'', ''1'']" "[''SL=0'']" "[]" accepting_client]
  have s1: "stopLoss example_zero_stop_with_target = Some (Fin 0)"
    using T1 [THEN conjunct1, THEN mp, OF p1] .
  have s2: "takeProfit example_zero_stop = Some (Fin 0)"
    using T2 [THEN conjunct2, THEN conjunct1, THEN mp, OF p2] .
  have n1: "filter is_stop_loss_order
     (calls_made [] (executeTrade accepting_client example_zero_stop_with_target [])) = []"
    using T1 [THEN conjunct2, THEN conjunct2, THEN conjunct1, THEN mp] h(1) s1 by blast
  have n2: "filter is_take_profit_order
     (calls_made [] (executeTrade accepting_client example_zero_stop [])) = []"
    using T2 [THEN conjunct2, THEN conjunct2, THEN conjunct2, THEN mp] h(2) s2 by blast
  show ?thesis
    using p1 p2 h s1 s2 n1 n2 r1 r2 by simp
qed

section \<open>Claim C5: the leverage token\<close>

text \<open>
  Claim C5 says that a leverage token that does not end in \<^verbatim>\<open>x\<close> makes the parse
  fail. Counterexample: the token \<^verbatim>\<open>20\<close> is accepted, with leverage 20.
\<close>

theorem C5_counterexample:
  "parseCommand ''BUY BTCUSDT 20 0.01'' =
     (Some \<lparr>side = ''LONG'', symbol = ''BTCUSDT'', leverage = Fin 20, quantity = Fin (1 / 100),
            stopLoss = None, takeProfit = None, hold = False\<rparr>, [])"
  by code_simp

text \<open>
  Claim C5, as amended. For a command of at least four tokens whose first token is
  \<^verbatim>\<open>BUY\<close> or \<^verbatim>\<open>SELL\<close> in any letter case: the parse fails with the leverage error
  exactly when \<^verbatim>\<open>parseInt\<close> of token 3 with its first \<^verbatim>\<open>x\<close> deleted is \<^verbatim>\<open>NaN\<close>, below 1
  or above 125, and a successful parse stores that number as the leverage. In
  particular a token \<^verbatim>\<open><digits>x\<close> is rejected exactly when its integer is below 1 or
  above 125, and is stored as that integer otherwise. The trailing \<^verbatim>\<open>x\<close> is not
  required.
\<close>

theorem C5_leverage_token:
  assumes "4 \<le> length (split_ws (trim command))"
    and "toUpperCase (split_ws (trim command) ! 0) \<in> {''BUY'', ''SELL''}"
  shows "(parseCommand_try command = Inl InvalidLeverage \<longleftrightarrow>
            isNaN (parseInt (replace_x (split_ws (trim command) ! 2))) \<or>
            js_less (parseInt (replace_x (split_ws (trim command) ! 2))) (Fin 1) \<or>
            js_greater (parseInt (replace_x (split_ws (trim command) ! 2))) (Fin 125)) \<and>
         (\<forall>tp. parseCommand_try command = Inr tp \<longrightarrow>
            leverage tp = parseInt (replace_x (split_ws (trim command) ! 2))) \<and>
         (\<forall>ds. split_ws (trim command) ! 2 = ds @ ''x'' \<and> ds \<noteq> [] \<and>
               (\<forall>c\<in>set ds. is_digit 10 c) \<longrightarrow>
            (parseCommand_try command = Inl InvalidLeverage \<longleftrightarrow>
               digits_value 10 ds < 1 \<or> 125 < digits_value 10 ds) \<and>
            (\<forall>tp. parseCommand_try command = Inr tp \<longrightarrow>
               leverage tp = Fin (of_int (digits_value 10 ds))))"
proof -
  let ?lev = "parseInt (replace_x (split_ws (trim command) ! 2))"
  have rej: "parseCommand_try command = Inl InvalidLeverage \<longleftrightarrow>
               isNaN ?lev \<or> js_less ?lev (Fin 1) \<or> js_greater ?lev (Fin 125)"
    by (subst parse_after_direction [OF assms]) simp
  have acc: "leverage tp = ?lev" if "parseCommand_try command = Inr tp" for tp
    by (subst conjunct2 [OF parse_success_params [OF that]])
       (simp add: optional_params_keeps)
  have dig: "(parseCommand_try command = Inl InvalidLeverage \<longleftrightarrow>
               digits_value 10 ds < 1 \<or> 125 < digits_value 10 ds) \<and>
            (\<forall>tp. parseCommand_try command = Inr tp \<longrightarrow>
               leverage tp = Fin (of_int (digits_value 10 ds)))"
    if tok: "split_ws (trim command) ! 2 = ds @ ''x'' \<and> ds \<noteq> [] \<and>
               (\<forall>c\<in>set ds. is_digit 10 c)" for ds
  proof -
    have lev: "?lev = number_of (of_int (digits_value 10 ds))"
      using tok by (rule leverage_token_value)
    have r: "parseCommand_try command = Inl InvalidLeverage \<longleftrightarrow>
               digits_value 10 ds < 1 \<or> 125 < digits_value 10 ds"
      unfolding rej lev by (simp add: js_less_number_of)
    have "leverage tp = Fin (of_int (digits_value 10 ds))"
      if p: "parseCommand_try command = Inr tp" for tp
    proof -
      have "parseCommand_try command \<noteq> Inl InvalidLeverage" using p by simp
      then have range: "1 \<le> digits_value 10 ds" "digits_value 10 ds \<le> 125"
        using r by auto
      have "(1::rat) / 2 ^ 1075 < 1" "(125::rat) < 2 ^ 1024 - 2 ^ 970" by simp_all
      moreover have "(1::rat) \<le> of_int (digits_value 10 ds)"
        "(of_int (digits_value 10 ds) :: rat) \<le> 125"
        using range by simp_all
      ultimately have "number_of (of_int (digits_value 10 ds)) = Fin (of_int (digits_value 10 ds))"
        unfolding number_of_def by auto
      then show ?thesis using acc [OF p] lev by simp
    qed
    then show ?thesis using r by blast
  qed
  show ?thesis
  proof (intro conjI allI impI)
    show "parseCommand_try command = Inl InvalidLeverage \<longleftrightarrow>
            isNaN ?lev \<or> js_less ?lev (Fin 1) \<or> js_greater ?lev (Fin 125)"
      by (rule rej)
  next
    fix tp assume "parseCommand_try command = Inr tp"
    then show "leverage tp = ?lev" by (rule acc)
  next
    fix ds
    assume t: "split_ws (trim command) ! 2 = ds @ ''x'' \<and> ds \<noteq> [] \<and>
               (\<forall>c\<in>set ds. is_digit 10 c)"
    show "parseCommand_try command = Inl InvalidLeverage \<longleftrightarrow>
               digits_value 10 ds < 1 \<or> 125 < digits_value 10 ds"
      using dig [OF t] by (rule conjunct1)
  next
    fix ds tp
    assume t: "split_ws (trim command) ! 2 = ds @ ''x'' \<and> ds \<noteq> [] \<and>
               (\<forall>c\<in>set ds. is_digit 10 c)"
      and p: "parseCommand_try command = Inr tp"
    show "leverage tp = Fin (of_int (digits_value 10 ds))"
      using dig [OF t] p by blast
  qed
qed


text \<open>The tokens of four commands at the bounds of the leverage range.\<close>

lemma leverage_examples:
  "split_ws (trim ''BUY BTCUSDT 1x 1'') = [''BUY'', ''BTCUSDT'', ''1x'', ''1'']"
  "split_ws (trim ''BUY BTCUSDT 125x 1'') = [''BUY'', ''BTCUSDT'', ''125x'', ''1'']"
  "split_ws (trim ''BUY BTCUSDT 0x 1'') = [''BUY'', ''BTCUSDT'', ''0x'', ''1'']"
  "split_ws (trim ''BUY BTCUSDT 126x 1'') = [''BUY'', ''BTCUSDT'', ''126x'', ''1'']"
  "toUpperCase ''BUY'' = ''BUY''"
  "digits_value 10 ''1'' = 1" "digits_value 10 ''125'' = 125"
  "digits_value 10 ''0'' = 0" "digits_value 10 ''126'' = 126"
  by code_simp+

text \<open>Claim C5, witness: \<^verbatim>\<open>1x\<close> and \<^verbatim>\<open>125x\<close> are accepted, \<^verbatim>\<open>0x\<close> and \<^verbatim>\<open>126x\<close> are rejected.\<close>

theorem C5_leverage_witness:
  "parseCommand_try ''BUY BTCUSDT 1x 1'' \<noteq> Inl InvalidLeverage \<and>
   parseCommand_try ''BUY BTCUSDT 125x 1'' \<noteq> Inl InvalidLeverage \<and>
   parseCommand_try ''BUY BTCUSDT 0x 1'' = Inl InvalidLeverage \<and>
   parseCommand_try ''BUY BTCUSDT 126x 1'' = Inl InvalidLeverage"
proof -
  have len: "4 \<le> length (split_ws (trim ''BUY BTCUSDT 1x 1''))"
    "4 \<le> length (split_ws (trim ''BUY BTCUSDT 125x 1''))"
    "4 \<le> length (split_ws (trim ''BUY BTCUSDT 0x 1''))"
    "4 \<le> length (split_ws (trim ''BUY BTCUSDT 126x 1''))"
    by (simp_all add: leverage_examples)
  have dir: "toUpperCase (split_ws (trim ''BUY BTCUSDT 1x 1'') ! 0) \<in> {''BUY'', ''SELL''}"
    "toUpperCase (split_ws (trim ''BUY BTCUSDT 125x 1'') ! 0) \<in> {''BUY'', ''SELL''}"
    "toUpperCase (split_ws (trim ''BUY BTCUSDT 0x 1'') ! 0) \<in> {''BUY'', ''SELL''}"
    "toUpperCase (split_ws (trim ''BUY BTCUSDT 126x 1'') ! 0) \<in> {''BUY'', ''SELL''}"
    by (simp_all add: leverage_examples)
  have tok:
    "split_ws (trim ''BUY BTCUSDT 1x 1'') ! 2 = ''1'' @ ''x'' \<and> ''1'' \<noteq> [] \<and>
       (\<forall>c\<in>set ''1''. is_digit 10 c)"
    "split_ws (trim ''BUY BTCUSDT 125x 1'') ! 2 = ''125'' @ ''x'' \<and> ''125'' \<noteq> [] \<and>
       (\<forall>c\<in>set ''125''. is_digit 10 c)"
    "split_ws (trim ''BUY BTCUSDT 0x 1'') ! 2 = ''0'' @ ''x'' \<and> ''0'' \<noteq> [] \<and>
       (\<forall>c\<in>set ''0''. is_digit 10 c)"
    "split_ws (trim ''BUY BTCUSDT 126x 1'') ! 2 = ''126'' @ ''x'' \<and> ''126'' \<noteq> [] \<and>
       (\<forall>c\<in>set ''126''. is_digit 10 c)"
    by (simp_all add: leverage_examples is_digit_10)
  note t1 = C5_leverage_token [OF len(1) dir(1), THEN conjunct2, THEN conjunct2, THEN spec,
              THEN mp, OF tok(1), THEN conjunct1]
  note t2 = C5_leverage_token [OF len(2) dir(2), THEN conjunct2, THEN conjunct2, THEN spec,
              THEN mp, OF tok(2), THEN conjunct1]
  note t3 = C5_leverage_token [OF len(3) dir(3), THEN conjunct2, THEN conjunct2, THEN spec,
              THEN mp, OF tok(3), THEN conjunct1]
  note t4 = C5_leverage_token [OF len(4) dir(4), THEN conjunct2, THEN conjunct2, THEN spec,
              THEN mp, OF tok(4), THEN conjunct1]
  show ?thesis
    unfolding t1 t2 t3 t4 by (simp add: leverage_examples)
qed

section \<open>Claim C6: the quantity token\<close>

text \<open>
  \<^verbatim>\<open>parseFloat\<close> of a string that starts with a minus sign is \<^verbatim>\<open>NaN\<close> or at most zero;
  of a string that starts with none of a sign, a dot, a digit or \<^verbatim>\<open>I\<close> it is \<^verbatim>\<open>NaN\<close>.
\<close>

lemma parseFloat_minus:
  "isNaN (parseFloat (CHR ''-'' # cs)) \<or> js_le (parseFloat (CHR ''-'' # cs)) (Fin 0)"
proof -
  define ip where "ip = takeWhile (is_digit 10) cs"
  define r1 where "r1 = dropWhile (is_digit 10) cs"
  define fp where
    "fp = (if r1 \<noteq> [] \<and> hd r1 = CHR ''.'' then takeWhile (is_digit 10) (tl r1) else [])"
  define r2 where
    "r2 = (if r1 \<noteq> [] \<and> hd r1 = CHR ''.'' then dropWhile (is_digit 10) (tl r1) else r1)"
  define mv where
    "mv = scale10 (of_int (digits_value 10 (ip @ fp))) (exponent_part r2 - int (length fp))"
  have pf: "parseFloat (CHR ''-'' # cs) =
      (if startsWith cs ''Infinity'' then NegInf
       else if ip = [] \<and> fp = [] then NaN else number_of (- mv))"
    unfolding ip_def r1_def fp_def r2_def mv_def
    by (simp add: parseFloat_def Let_def is_space_def)
  have "\<forall>c\<in>set (ip @ fp). is_digit 10 c"
    using set_takeWhileD [of _ "is_digit 10"] by (auto simp add: ip_def fp_def)
  then have "0 \<le> digits_value 10 (ip @ fp)" by (rule digits_value_nonneg)
  then have "0 \<le> mv" by (simp add: mv_def scale10_def)
  moreover have "(0::rat) \<le> 1 / 2 ^ 1075" by simp
  ultimately have "- mv \<le> 1 / 2 ^ 1075" by linarith
  then have "js_le (number_of (- mv)) (Fin 0)" by (simp only: js_less_number_of)
  then show ?thesis unfolding pf by (simp add: isNaN_def js_le_def)
qed

lemma parseFloat_non_numeric:
  assumes "\<not> is_space c" and "c \<notin> set ''+-.0123456789I''"
  shows "parseFloat (c # cs) = NaN"
proof -
  have d: "\<not> is_digit 10 c" using assms(2) by (simp add: is_digit_10)
  have s: "c \<noteq> CHR ''-''" "c \<noteq> CHR ''+''" "c \<noteq> CHR ''.''" using assms(2) by simp_all
  have i: "\<not> startsWith (c # cs) ''Infinity''" using assms(2) by (simp add: startsWith_def)
  show ?thesis
    by (simp add: parseFloat_def Let_def assms(1) s i d)
qed

lemma positive_number:
  "\<not> isNaN q \<Longrightarrow> \<not> js_le q (Fin 0) \<Longrightarrow> js_less (Fin 0) q"
  by (cases q) (auto simp add: isNaN_def js_le_def)


text \<open>
  Claim C6 says that every non-finite and every non-numeric quantity token is
  rejected. Counterexample: the tokens \<^verbatim>\<open>Infinity\<close> and \<^verbatim>\<open>0.01abc\<close> are accepted,
  with the quantities infinity and 0.01.
\<close>

theorem C6_counterexample:
  "parseCommand ''BUY BTCUSDT 20x Infinity'' =
     (Some \<lparr>side = ''LONG'', symbol = ''BTCUSDT'', leverage = Fin 20, quantity = PosInf,
            stopLoss = None, takeProfit = None, hold = False\<rparr>, []) \<and>
   parseCommand ''BUY BTCUSDT 20x 0.01abc'' =
     (Some \<lparr>side = ''LONG'', symbol = ''BTCUSDT'', leverage = Fin 20, quantity = Fin (1 / 100),
            stopLoss = None, takeProfit = None, hold = False\<rparr>, [])"
  by code_simp

text \<open>
  Claim C6, as amended. For a command of at least four tokens: when \<^verbatim>\<open>parseFloat\<close>
  of token 4 is \<^verbatim>\<open>NaN\<close> or at most zero the parse fails; when the direction and
  leverage tokens are valid, the parse fails with the quantity error exactly in
  that case; a successful parse stores \<^verbatim>\<open>parseFloat\<close> of token 4 as the quantity,
  and it is greater than zero. In particular a token that starts with a minus
  sign, and a token that starts with none of a sign, a dot, a digit or \<^verbatim>\<open>I\<close>, is
  rejected.
\<close>

theorem C6_quantity_token:
  assumes "4 \<le> length (split_ws (trim command))"
  shows "(isNaN (parseFloat (split_ws (trim command) ! 3)) \<or>
          js_le (parseFloat (split_ws (trim command) ! 3)) (Fin 0) \<longrightarrow>
            fst (parseCommand command) = None) \<and>
         (toUpperCase (split_ws (trim command) ! 0) \<in> {''BUY'', ''SELL''} \<and>
          \<not> (isNaN (parseInt (replace_x (split_ws (trim command) ! 2))) \<or>
             js_less (parseInt (replace_x (split_ws (trim command) ! 2))) (Fin 1) \<or>
             js_greater (parseInt (replace_x (split_ws (trim command) ! 2))) (Fin 125)) \<longrightarrow>
            (parseCommand_try command = Inl InvalidQuantity \<longleftrightarrow>
               isNaN (parseFloat (split_ws (trim command) ! 3)) \<or>
               js_le (parseFloat (split_ws (trim command) ! 3)) (Fin 0))) \<and>
         (\<forall>tp. parseCommand_try command = Inr tp \<longrightarrow>
            quantity tp = parseFloat (split_ws (trim command) ! 3) \<and>
            js_less (Fin 0) (quantity tp)) \<and>
         (\<forall>cs. split_ws (trim command) ! 3 = CHR ''-'' # cs \<longrightarrow>
            fst (parseCommand command) = None) \<and>
         (\<forall>c cs. split_ws (trim command) ! 3 = c # cs \<and> \<not> is_space c \<and>
                 c \<notin> set ''+-.0123456789I'' \<longrightarrow>
            fst (parseCommand command) = None)"
proof -
  let ?q = "parseFloat (split_ws (trim command) ! 3)"
  let ?lev = "parseInt (replace_x (split_ws (trim command) ! 2))"
  have bad: "fst (parseCommand command) = None" if "isNaN ?q \<or> js_le ?q (Fin 0)"
  proof -
    have "\<exists>e. parseCommand_try command = Inl e"
      by (subst parse_checks) (simp only: that if_True split: if_split, simp)
    then show ?thesis by (auto simp add: parseCommand_def)
  qed
  have iff: "parseCommand_try command = Inl InvalidQuantity \<longleftrightarrow> isNaN ?q \<or> js_le ?q (Fin 0)"
    if "toUpperCase (split_ws (trim command) ! 0) \<in> {''BUY'', ''SELL''} \<and>
        \<not> (isNaN ?lev \<or> js_less ?lev (Fin 1) \<or> js_greater ?lev (Fin 125))"
    by (subst parse_after_direction [OF assms conjunct1 [OF that]])
       (simp only: conjunct2 [OF that] if_False, simp)
  have ok: "quantity tp = ?q \<and> js_less (Fin 0) (quantity tp)"
    if p: "parseCommand_try command = Inr tp" for tp
  proof -
    have q: "quantity tp = ?q"
      by (subst conjunct2 [OF parse_success_params [OF p]])
         (simp add: optional_params_keeps)
    have "\<not> (isNaN ?q \<or> js_le ?q (Fin 0))"
    proof
      assume "isNaN ?q \<or> js_le ?q (Fin 0)"
      then have "fst (parseCommand command) = None" by (rule bad)
      then show False using p by (simp add: parseCommand_def)
    qed
    then have "\<not> isNaN ?q" "\<not> js_le ?q (Fin 0)" by simp_all
    then have "js_less (Fin 0) ?q" by (rule positive_number)
    then show ?thesis using q by simp
  qed
  show ?thesis
  proof (intro conjI allI impI)
    assume "isNaN ?q \<or> js_le ?q (Fin 0)"
    then show "fst (parseCommand command) = None" by (rule bad)
  next
    assume "toUpperCase (split_ws (trim command) ! 0) \<in> {''BUY'', ''SELL''} \<and>
        \<not> (isNaN ?lev \<or> js_less ?lev (Fin 1) \<or> js_greater ?lev (Fin 125))"
    then show "parseCommand_try command = Inl InvalidQuantity \<longleftrightarrow>
                 isNaN ?q \<or> js_le ?q (Fin 0)"
      by (rule iff)
  next
    fix tp assume "parseCommand_try command = Inr tp"
    then show "quantity tp = ?q" using ok by blast
  next
    fix tp assume "parseCommand_try command = Inr tp"
    then show "js_less (Fin 0) (quantity tp)" using ok by blast
  next
    fix cs assume "split_ws (trim command) ! 3 = CHR ''-'' # cs"
    then have "isNaN ?q \<or> js_le ?q (Fin 0)" using parseFloat_minus [of cs] by simp
    then show "fst (parseCommand command) = None" by (rule bad)
  next
    fix c cs
    assume "split_ws (trim command) ! 3 = c # cs \<and> \<not> is_space c \<and>
              c \<notin> set ''+-.0123456789I''"
    then have "?q = NaN" using parseFloat_non_numeric [of c cs] by simp
    then have "isNaN ?q \<or> js_le ?q (Fin 0)" by (simp add: isNaN_def)
    then show "fst (parseCommand command) = None" by (rule bad)
  qed
qed


text \<open>The tokens and numbers of four commands that differ in the quantity token.\<close>

lemma quantity_examples:
  "split_ws (trim ''BUY BTCUSDT 20x 0.01'') = [''BUY'', ''BTCUSDT'', ''20x'', ''0.01'']"
  "split_ws (trim ''BUY BTCUSDT 20x 0'') = [''BUY'', ''BTCUSDT'', ''20x'', ''0'']"
  "split_ws (trim ''BUY BTCUSDT 20x -1'') = [''BUY'', ''BTCUSDT'', ''20x'', ''-1'']"
  "split_ws (trim ''BUY BTCUSDT 20x abc'') = [''BUY'', ''BTCUSDT'', ''20x'', ''abc'']"
  "parseInt ''20'' = Fin 20"
  "parseFloat ''0.01'' = Fin (1 / 100)"
  "parseFloat ''0'' = Fin 0"
  "parseCommand_try ''BUY BTCUSDT 20x 0.01'' =
     Inr \<lparr>side = ''LONG'', symbol = ''BTCUSDT'', leverage = Fin 20, quantity = Fin (1 / 100),
          stopLoss = None, takeProfit = None, hold = False\<rparr>"
  by code_simp+

text \<open>Claim C6, witness: \<^verbatim>\<open>0\<close>, \<^verbatim>\<open>-1\<close> and \<^verbatim>\<open>abc\<close> are rejected, \<^verbatim>\<open>0.01\<close> is accepted.\<close>

theorem C6_quantity_witness:
  "parseCommand_try ''BUY BTCUSDT 20x 0'' = Inl InvalidQuantity \<and>
   fst (parseCommand ''BUY BTCUSDT 20x -1'') = None \<and>
   fst (parseCommand ''BUY BTCUSDT 20x abc'') = None \<and>
   parseCommand_try ''BUY BTCUSDT 20x 0.01'' \<noteq> Inl InvalidQuantity \<and>
   js_less (Fin 0) (Fin (1 / 100))"
proof -
  have len: "4 \<le> length (split_ws (trim ''BUY BTCUSDT 20x 0''))"
    "4 \<le> length (split_ws (trim ''BUY BTCUSDT 20x -1''))"
    "4 \<le> length (split_ws (trim ''BUY BTCUSDT 20x abc''))"
    "4 \<le> length (split_ws (trim ''BUY BTCUSDT 20x 0.01''))"
    by (simp_all add: quantity_examples)
  have pre:
    "toUpperCase (split_ws (trim ''BUY BTCUSDT 20x 0'') ! 0) \<in> {''BUY'', ''SELL''} \<and>
      \<not> (isNaN (parseInt (replace_x (split_ws (trim ''BUY BTCUSDT 20x 0'') ! 2))) \<or>
         js_less (parseInt (replace_x (split_ws (trim ''BUY BTCUSDT 20x 0'') ! 2))) (Fin 1) \<or>
         js_greater (parseInt (replace_x (split_ws (trim ''BUY BTCUSDT 20x 0'') ! 2)))
           (Fin 125))"
    "toUpperCase (split_ws (trim ''BUY BTCUSDT 20x 0.01'') ! 0) \<in> {''BUY'', ''SELL''} \<and>
      \<not> (isNaN (parseInt (replace_x (split_ws (trim ''BUY BTCUSDT 20x 0.01'') ! 2))) \<or>
         js_less (parseInt (replace_x (split_ws (trim ''BUY BTCUSDT 20x 0.01'') ! 2))) (Fin 1) \<or>
         js_greater (parseInt (replace_x (split_ws (trim ''BUY BTCUSDT 20x 0.01'') ! 2)))
           (Fin 125))"
    by (simp_all add: quantity_examples toUpperCase_def upper_char_def isNaN_def js_greater_def)
  have minus: "split_ws (trim ''BUY BTCUSDT 20x -1'') ! 3 = CHR ''-'' # ''1''"
    by (simp add: quantity_examples)
  have alpha: "split_ws (trim ''BUY BTCUSDT 20x abc'') ! 3 = CHR ''a'' # ''bc'' \<and>
      \<not> is_space CHR ''a'' \<and> CHR ''a'' \<notin> set ''+-.0123456789I''"
    by (simp add: quantity_examples is_space_def)
  note T0 = C6_quantity_token [OF len(1)]
  note T1 = C6_quantity_token [OF len(2)]
  note T2 = C6_quantity_token [OF len(3)]
  note T3 = C6_quantity_token [OF len(4)]
  have a: "parseCommand_try ''BUY BTCUSDT 20x 0'' = Inl InvalidQuantity"
    using T0 [THEN conjunct2, THEN conjunct1, THEN mp, OF pre(1)]
    by (simp add: quantity_examples js_le_def)
  have b: "fst (parseCommand ''BUY BTCUSDT 20x -1'') = None"
    using T1 [THEN conjunct2, THEN conjunct2, THEN conjunct2, THEN conjunct1, THEN spec,
              THEN mp, OF minus] .
  have c: "fst (parseCommand ''BUY BTCUSDT 20x abc'') = None"
    using T2 [THEN conjunct2, THEN conjunct2, THEN conjunct2, THEN conjunct2, THEN spec,
              THEN spec, THEN mp, OF alpha] .
  have d: "parseCommand_try ''BUY BTCUSDT 20x 0.01'' \<noteq> Inl InvalidQuantity"
    using T3 [THEN conjunct2, THEN conjunct1, THEN mp, OF pre(2)]
    by (simp add: quantity_examples js_le_def isNaN_def)
  have e: "js_less (Fin 0) (Fin (1 / 100))"
    using T3 [THEN conjunct2, THEN conjunct2, THEN conjunct1, THEN spec, THEN mp,
              OF quantity_examples(8)]
    by (simp add: quantity_examples)
  show ?thesis using a b c d e by simp
qed

section \<open>Claim C7: letter case of the optional tokens\<close>

text \<open>
  Claim C7 says that \<^verbatim>\<open>sl=100\<close> sets the stop loss as \<^verbatim>\<open>SL=100\<close> does. The parser
  tests the price keys with \<^verbatim>\<open>startsWith('SL=')\<close> and \<^verbatim>\<open>startsWith('TP=')\<close>, which
  compare letter case, while it upper-cases the token before comparing it with
  \<^verbatim>\<open>HOLD\<close> and upper-cases the direction: in lower case the price tokens are ignored,
  the upper-case ones are stored, and the lower-case direction and \<^verbatim>\<open>hold\<close> are
  recognised.
\<close>

theorem C7_lowercase_price_keys_are_ignored:
  "parseCommand ''BUY BTCUSDT 5x 1 sl=100 tp=200'' =
     (Some \<lparr>side = ''LONG'', symbol = ''BTCUSDT'', leverage = Fin 5, quantity = Fin 1,
            stopLoss = None, takeProfit = None, hold = False\<rparr>, []) \<and>
   parseCommand ''BUY BTCUSDT 5x 1 SL=100 TP=200'' =
     (Some \<lparr>side = ''LONG'', symbol = ''BTCUSDT'', leverage = Fin 5, quantity = Fin 1,
            stopLoss = Some (Fin 100), takeProfit = Some (Fin 200), hold = False\<rparr>, []) \<and>
   parseCommand ''buy btcusdt 5x 1 hold'' =
     (Some \<lparr>side = ''LONG'', symbol = ''BTCUSDT'', leverage = Fin 5, quantity = Fin 1,
            stopLoss = None, takeProfit = None, hold = True\<rparr>, [])"
  by code_simp

section \<open>Claim C9: what a failed parse returns\<close>

text \<open>
  Claim C9 says that a failed parse returns a failure that carries its reason and
  that the parser does not log. Counterexample: four commands that fail for the
  four different reasons all return \<^verbatim>\<open>null\<close>, and each writes one line to the
  console.
\<close>

theorem C9_counterexample:
  "parseCommand ''BUY'' = (None, [ConsoleError InsufficientParameters]) \<and>
   parseCommand ''HODL BTCUSDT 5x 1'' = (None, [ConsoleError InvalidDirection]) \<and>
   parseCommand ''BUY BTCUSDT 0x 1'' = (None, [ConsoleError InvalidLeverage]) \<and>
   parseCommand ''BUY BTCUSDT 5x 0'' = (None, [ConsoleError InvalidQuantity])"
  by code_simp

text \<open>
  Claim C9, as amended. \<^verbatim>\<open>parseCommand\<close> returns \<^verbatim>\<open>null\<close> exactly when the command has
  fewer than four tokens, or a direction other than \<^verbatim>\<open>BUY\<close> and \<^verbatim>\<open>SELL\<close>, or a
  leverage that is \<^verbatim>\<open>NaN\<close> or outside 1..125, or a quantity that is \<^verbatim>\<open>NaN\<close> or at most
  zero. It then writes exactly one \<^verbatim>\<open>console.error\<close> line, whose message is the one
  of the first of these four checks that fails: the reason is in that line only,
  the value returned is \<^verbatim>\<open>null\<close> for every reason. A successful parse writes
  nothing. (\<^verbatim>\<open>parseCommand\<close> has no access to the chat or to the exchange client: it
  neither replies nor places a call.)
\<close>

theorem C9_parse_failure_is_null_and_logged:
  "(fst (parseCommand command) = None \<longleftrightarrow>
      length (split_ws (trim command)) < 4 \<or>
      toUpperCase (split_ws (trim command) ! 0) \<notin> {''BUY'', ''SELL''} \<or>
      (isNaN (parseInt (replace_x (split_ws (trim command) ! 2))) \<or>
       js_less (parseInt (replace_x (split_ws (trim command) ! 2))) (Fin 1) \<or>
       js_greater (parseInt (replace_x (split_ws (trim command) ! 2))) (Fin 125)) \<or>
      (isNaN (parseFloat (split_ws (trim command) ! 3)) \<or>
       js_le (parseFloat (split_ws (trim command) ! 3)) (Fin 0))) \<and>
   (fst (parseCommand command) = None \<longrightarrow>
      snd (parseCommand command) =
        [ConsoleError
          (if length (split_ws (trim command)) < 4 then InsufficientParameters
           else if toUpperCase (split_ws (trim command) ! 0) \<notin> {''BUY'', ''SELL''}
             then InvalidDirection
           else if isNaN (parseInt (replace_x (split_ws (trim command) ! 2))) \<or>
                   js_less (parseInt (replace_x (split_ws (trim command) ! 2))) (Fin 1) \<or>
                   js_greater (parseInt (replace_x (split_ws (trim command) ! 2))) (Fin 125)
             then InvalidLeverage
           else InvalidQuantity)]) \<and>
   (fst (parseCommand command) \<noteq> None \<longrightarrow> snd (parseCommand command) = [])"
proof -
  define A where "A = (length (split_ws (trim command)) < 4)"
  define B where "B = (toUpperCase (split_ws (trim command) ! 0) \<notin> {''BUY'', ''SELL''})"
  define C where
    "C = (isNaN (parseInt (replace_x (split_ws (trim command) ! 2))) \<or>
          js_less (parseInt (replace_x (split_ws (trim command) ! 2))) (Fin 1) \<or>
          js_greater (parseInt (replace_x (split_ws (trim command) ! 2))) (Fin 125))"
  define D where
    "D = (isNaN (parseFloat (split_ws (trim command) ! 3)) \<or>
          js_le (parseFloat (split_ws (trim command) ! 3)) (Fin 0))"
  obtain tp0 where pc: "parseCommand_try command =
      (if A then Inl InsufficientParameters else if B then Inl InvalidDirection
       else if C then Inl InvalidLeverage else if D then Inl InvalidQuantity else Inr tp0)"
    unfolding A_def B_def C_def D_def using parse_checks [of command] by blast
  have "(fst (parseCommand command) = None \<longleftrightarrow> A \<or> B \<or> C \<or> D) \<and>
        (fst (parseCommand command) = None \<longrightarrow>
           snd (parseCommand command) =
             [ConsoleError (if A then InsufficientParameters else if B then InvalidDirection
                            else if C then InvalidLeverage else InvalidQuantity)]) \<and>
        (fst (parseCommand command) \<noteq> None \<longrightarrow> snd (parseCommand command) = [])"
    by (simp add: parseCommand_def pc)
  then show ?thesis unfolding A_def B_def C_def D_def .
qed

text \<open>A command with a wrong direction.\<close>

lemma failure_examples:
  "split_ws (trim ''HODL BTCUSDT 5x 1'') = [''HODL'', ''BTCUSDT'', ''5x'', ''1'']"
  "toUpperCase ''HODL'' = ''HODL''"
  "parseCommand ''HODL BTCUSDT 5x 1'' = (None, [ConsoleError InvalidDirection])"
  by code_simp+

text \<open>Claim C9, witness: a command that fails and a command that parses.\<close>

theorem C9_parse_failure_witness:
  "fst (parseCommand ''HODL BTCUSDT 5x 1'') = None \<and>
   snd (parseCommand ''HODL BTCUSDT 5x 1'') = [ConsoleError InvalidDirection] \<and>
   fst (parseCommand ''BUY BTCUSDT 20x 0.01'') \<noteq> None \<and>
   snd (parseCommand ''BUY BTCUSDT 20x 0.01'') = []"
proof -
  have f: "fst (parseCommand ''HODL BTCUSDT 5x 1'') = None"
    by (simp add: failure_examples)
  have g: "fst (parseCommand ''BUY BTCUSDT 20x 0.01'') \<noteq> None"
    by (simp add: parseCommand_def quantity_examples)
  have "snd (parseCommand ''HODL BTCUSDT 5x 1'') = [ConsoleError InvalidDirection]"
    using C9_parse_failure_is_null_and_logged [of "''HODL BTCUSDT 5x 1''",
            THEN conjunct2, THEN conjunct1, THEN mp, OF f]
    by (simp add: failure_examples)
  moreover have "snd (parseCommand ''BUY BTCUSDT 20x 0.01'') = []"
    using C9_parse_failure_is_null_and_logged [of "''BUY BTCUSDT 20x 0.01''",
            THEN conjunct2, THEN conjunct2, THEN mp, OF g] .
  ultimately show ?thesis using f g by simp
qed

end
